theory Spec2Isabelle
  imports Main
begin

section \<open>JavaScript values\<close>

text \<open>
  Both servers read the fields of a JSON request body (or of a query string) and coerce
  them with \<^verbatim>\<open>||\<close>, \<^verbatim>\<open>!\<close>, \<^verbatim>\<open>String\<close>, \<^verbatim>\<open>Number\<close>, \<^verbatim>\<open>parseInt\<close>, \<^verbatim>\<open>toLowerCase\<close> and \<^verbatim>\<open>trim\<close>.
  A field value is a JSON scalar; an absent field reads as \<open>JUndefined\<close>.

  Domain of the model: numbers are integers (exactly representable doubles, magnitude
  below \<open>2^53\<close>), strings are byte strings and case and white space are ASCII only; request
  fields holding arrays or objects are not modelled. Clock readings
  (\<^verbatim>\<open>new Date().toISOString()\<close>) and random identifiers (\<^verbatim>\<open>uuidv4()\<close>) are written into
  records by the code and read by none of the modelled operations; those fields are left out
  of the records below. File and network input and output are taken to succeed.
\<close>

datatype jsval = JUndefined | JNull | JBool bool | JNum int | JStr string

type_synonym jsobject = "(string \<times> jsval) list"

definition field :: "jsobject \<Rightarrow> string \<Rightarrow> jsval" where
  "field data k = (case map_of data k of None \<Rightarrow> JUndefined | Some v \<Rightarrow> v)"

fun truthy :: "jsval \<Rightarrow> bool" where
  "truthy JUndefined = False"
| "truthy JNull = False"
| "truthy (JBool b) = b"
| "truthy (JNum n) = (n \<noteq> 0)"
| "truthy (JStr s) = (s \<noteq> [])"

text \<open>\<^verbatim>\<open>a || b\<close>\<close>

definition js_or :: "jsval \<Rightarrow> jsval \<Rightarrow> jsval" where
  "js_or a b = (if truthy a then a else b)"

subsection \<open>Strings\<close>

definition lower_char :: "char \<Rightarrow> char" where
  "lower_char c =
     (let n = (of_char c :: nat) in if 65 \<le> n \<and> n \<le> 90 then char_of (n + 32) else c)"

definition toLowerCase :: "string \<Rightarrow> string" where
  "toLowerCase s = map lower_char s"

definition is_space :: "char \<Rightarrow> bool" where
  "is_space c = (let n = (of_char c :: nat) in (9 \<le> n \<and> n \<le> 13) \<or> n = 32)"

definition trim :: "string \<Rightarrow> string" where
  "trim s = rev (dropWhile is_space (rev (dropWhile is_space s)))"

text \<open>Decimal rendering of an integer, as \<^verbatim>\<open>String(n)\<close> gives it below \<open>10^21\<close>.\<close>

fun digits_of_nat :: "nat \<Rightarrow> string" where
  "digits_of_nat n =
     (if n < 10 then [char_of (48 + n)]
      else digits_of_nat (n div 10) @ [char_of (48 + n mod 10)])"

declare digits_of_nat.simps [simp del]

definition string_of_int :: "int \<Rightarrow> string" where
  "string_of_int i = (if i < 0 then CHR ''-'' # digits_of_nat (nat (- i)) else digits_of_nat (nat i))"

text \<open>\<^verbatim>\<open>String(v)\<close>\<close>

fun String :: "jsval \<Rightarrow> string" where
  "String JUndefined = ''undefined''"
| "String JNull = ''null''"
| "String (JBool b) = (if b then ''true'' else ''false'')"
| "String (JNum n) = string_of_int n"
| "String (JStr s) = s"

subsection \<open>Numerals\<close>

text \<open>The value of a digit in a radix up to 16; \<open>None\<close> when the character is no digit of it.\<close>

definition digit_val :: "nat \<Rightarrow> char \<Rightarrow> nat option" where
  "digit_val radix c =
     (let n = (of_char c :: nat);
          d = (if 48 \<le> n \<and> n \<le> 57 then n - 48
               else if 97 \<le> n \<and> n \<le> 102 then n - 87
               else if 65 \<le> n \<and> n \<le> 70 then n - 55
               else 16)
      in if d < radix then Some d else None)"

definition is_digit :: "nat \<Rightarrow> char \<Rightarrow> bool" where
  "is_digit radix c = (digit_val radix c \<noteq> None)"

definition digits_value :: "nat \<Rightarrow> string \<Rightarrow> nat" where
  "digits_value radix ds =
     fold (\<lambda>c acc. acc * radix + (case digit_val radix c of None \<Rightarrow> 0 | Some d \<Rightarrow> d)) ds 0"

text \<open>
  \<^verbatim>\<open>parseInt(s)\<close> without a radix: leading white space is skipped, a sign is read, a
  \<^verbatim>\<open>0x\<close> prefix selects radix 16, the longest run of digits is the value and what follows
  it is ignored; no digit at all gives \<^verbatim>\<open>NaN\<close>, here \<open>None\<close>.
\<close>

definition parseInt_string :: "string \<Rightarrow> int option" where
  "parseInt_string s =
     (let t = dropWhile is_space s;
          neg = (take 1 t = ''-'');
          u = (if take 1 t = ''-'' \<or> take 1 t = ''+'' then drop 1 t else t);
          hex = (take 2 u = ''0x'' \<or> take 2 u = ''0X'');
          radix = (if hex then 16 else 10);
          ds = takeWhile (is_digit radix) (if hex then drop 2 u else u)
      in if ds = [] then None
         else Some ((if neg then - 1 else 1) * int (digits_value radix ds)))"

text \<open>\<^verbatim>\<open>parseInt(v)\<close>: the argument is converted with \<^verbatim>\<open>String\<close> first.\<close>

definition parseInt :: "jsval \<Rightarrow> int option" where
  "parseInt v = parseInt_string (String v)"

text \<open>\<^verbatim>\<open>!n\<close> for the result of \<^verbatim>\<open>parseInt\<close>: true for \<^verbatim>\<open>NaN\<close> and for zero.\<close>

definition not_num :: "int option \<Rightarrow> bool" where
  "not_num n = (case n of None \<Rightarrow> True | Some i \<Rightarrow> i = 0)"

section \<open>server.js\<close>

subsection \<open>Errors\<close>

text \<open>
  One constructor for each message \<^verbatim>\<open>server.js\<close> throws, and \<open>TypeError\<close> for the runtime's
  own exception when a string method is called on a value that is not a string:
  \<^item> \<open>MissingVoterData\<close>: Datos incompletos: wallet, nombre y DNI son obligatorios
  \<^item> \<open>InvalidWallet\<close>: Direccion de wallet invalida
  \<^item> \<open>DuplicateVoter\<close>: Votante ya registrado con esta wallet
  \<^item> \<open>MissingAdminOrTitle\<close>: Direccion de admin y titulo son obligatorios
  \<^item> \<open>Unauthorized\<close>: No autorizado: direccion no es admin
  \<^item> \<open>MissingElectionOrName\<close>: Election ID y nombre son obligatorios
  \<^item> \<open>ElectionNotFound\<close>: Eleccion no encontrada
  \<^item> \<open>MissingVoteData\<close>: Datos incompletos para registrar voto
  \<^item> \<open>AlreadyVoted\<close>: El votante ya emitio su voto en esta eleccion
  \<^item> \<open>CandidateNotFound\<close>: Candidato no encontrado
\<close>

datatype error =
    MissingVoterData
  | InvalidWallet
  | DuplicateVoter
  | MissingAdminOrTitle
  | Unauthorized
  | MissingElectionOrName
  | ElectionNotFound
  | MissingVoteData
  | AlreadyVoted
  | CandidateNotFound
  | TypeError

text \<open>The reply \<^verbatim>\<open>{ success: true, ... }\<close> or \<^verbatim>\<open>{ success: false, error }\<close>.\<close>

datatype ('e, 'a) reply = Success 'a | Failure 'e

text \<open>\<^verbatim>\<open>(v).trim()\<close> and \<^verbatim>\<open>(v).toLowerCase().trim()\<close>: a \<open>TypeError\<close> unless \<open>v\<close> is a string.\<close>

fun js_trim :: "jsval \<Rightarrow> error + string" where
  "js_trim (JStr s) = Inr (trim s)"
| "js_trim v = Inl TypeError"

fun js_lower_trim :: "jsval \<Rightarrow> error + string" where
  "js_lower_trim (JStr s) = Inr (trim (toLowerCase s))"
| "js_lower_trim v = Inl TypeError"

subsection \<open>The in-memory database\<close>

text \<open>
  The candidate's \<^verbatim>\<open>percentage\<close> is a string: the literal \<^verbatim>\<open>'0%'\<close>, or
  \<^verbatim>\<open>((count / totalVotes) * 100).toFixed(2) + '%'\<close>, which is floating point. The model keeps
  the two numbers the string is computed from; equal values stand for equal strings.
\<close>

datatype percentage = PctZero | PctFixed2 nat nat

record voter =
  vo_walletAddress :: string
  vo_name :: string
  vo_idNumber :: string
  vo_email :: string
  vo_status :: string

record election =
  el_electionId :: int
  el_title :: string
  el_description :: string
  el_startDate :: jsval
  el_endDate :: jsval
  el_status :: string
  el_totalVotes :: nat
  el_contractAddress :: string

record candidate =
  ca_electionId :: int
  ca_candidateId :: int
  ca_name :: string
  ca_party :: string
  ca_votes :: nat
  ca_percentage :: percentage

record vote =
  vt_txHash :: jsval
  vt_walletAddress :: string
  vt_electionId :: int
  vt_candidateId :: int
  vt_blockNumber :: jsval
  vt_gasUsed :: jsval
  vt_status :: string

record block =
  bl_action :: string
  bl_details :: jsobject
  bl_blockNumber :: nat

record audit_entry =
  au_action :: string
  au_user :: jsval
  au_details :: jsobject
  au_status :: string
  au_error :: "error option"

record stats =
  totalVoters :: nat
  totalElections :: nat
  totalVotes :: nat
  totalCandidates :: nat

record database =
  voters :: "voter list"
  elections :: "election list"
  candidates :: "candidate list"
  votes :: "vote list"
  blockchain :: "block list"
  audit :: "audit_entry list"
  stats :: "stats option"

record config =
  ADMIN_ADDRESSES :: "string list"
  VOTING_CONTRACT_ADDRESS :: string

text \<open>The initial value of \<^verbatim>\<open>DATABASE\<close> (its \<^verbatim>\<open>relayerLog\<close> is not modelled).\<close>

definition DATABASE0 :: database where
  "DATABASE0 = \<lparr>voters = [], elections = [], candidates = [], votes = [],
                 blockchain = [], audit = [], stats = None\<rparr>"

subsection \<open>Logging and statistics\<close>

definition logBlockchain :: "string \<Rightarrow> jsobject \<Rightarrow> database \<Rightarrow> database" where
  "logBlockchain action details db =
     db\<lparr>blockchain := blockchain db @
          [\<lparr>bl_action = action, bl_details = details,
            bl_blockNumber = length (blockchain db)\<rparr>]\<rparr>"

definition logAudit ::
    "string \<Rightarrow> jsval \<Rightarrow> jsobject \<Rightarrow> string \<Rightarrow> error option \<Rightarrow> database \<Rightarrow> database" where
  "logAudit action user details status err db =
     db\<lparr>audit := audit db @
          [\<lparr>au_action = action, au_user = user, au_details = details,
            au_status = status, au_error = err\<rparr>]\<rparr>"

definition getStats :: "database \<Rightarrow> stats" where
  "getStats db = \<lparr>totalVoters = length (voters db), totalElections = length (elections db),
                  totalVotes = length (votes db), totalCandidates = length (candidates db)\<rparr>"

definition updateStats :: "database \<Rightarrow> database" where
  "updateStats db = db\<lparr>stats := Some (getStats db)\<rparr>"

text \<open>
  \<^verbatim>\<open>initializeSystem\<close> after its \<^verbatim>\<open>loadDatabase\<close>: the genesis block is pushed when the
  chain is empty. The reload itself is not modelled: it puts back the state of the last
  save, which every successful operation makes, so it can only drop the audit entries of
  the failures since; the state it yields is the state after a shorter run.
\<close>

definition initializeSystem :: "database \<Rightarrow> database" where
  "initializeSystem db =
     updateStats
       (if blockchain db = []
        then db\<lparr>blockchain := [\<lparr>bl_action = ''GENESIS'',
                 bl_details = [(''message'', JStr ''Sistema inicializado'')],
                 bl_blockNumber = 0\<rparr>]\<rparr>
        else db)"

subsection \<open>registerVoter\<close>

text \<open>\<^verbatim>\<open>/^0x[a-fA-F0-9]{40}$/\<close>\<close>

definition wallet_shape :: "string \<Rightarrow> bool" where
  "wallet_shape w = (length w = 42 \<and> take 2 w = ''0x'' \<and> list_all (is_digit 16) (drop 2 w))"

text \<open>The \<^verbatim>\<open>try\<close> block: \<open>Inl\<close> is a \<^verbatim>\<open>throw\<close>; every throw comes before the first mutation.\<close>

definition registerVoter_try :: "database \<Rightarrow> jsobject \<Rightarrow> error + (string \<times> database)" where
  "registerVoter_try db data =
     (case js_lower_trim (js_or (js_or (field data ''walletAddress'') (field data ''wallet'')) (JStr [])) of
        Inl e \<Rightarrow> Inl e
      | Inr wallet \<Rightarrow>
     (case js_trim (js_or (field data ''name'') (JStr [])) of
        Inl e \<Rightarrow> Inl e
      | Inr name \<Rightarrow>
     (case js_trim (js_or (js_or (field data ''idNumber'') (field data ''dni'')) (JStr [])) of
        Inl e \<Rightarrow> Inl e
      | Inr idNumber \<Rightarrow>
     (case js_trim (js_or (field data ''email'') (JStr [])) of
        Inl e \<Rightarrow> Inl e
      | Inr email \<Rightarrow>
        if wallet = [] \<or> name = [] \<or> idNumber = [] then Inl MissingVoterData
        else if \<not> wallet_shape wallet then Inl InvalidWallet
        else if list_ex (\<lambda>v. toLowerCase (vo_walletAddress v) = wallet) (voters db)
          then Inl DuplicateVoter
        else Inr (wallet,
          updateStats
            (logAudit ''registerVoter'' (JStr wallet)
               [(''name'', JStr name), (''idNumber'', JStr idNumber)] ''success'' None
               (logBlockchain ''registerVoter'' [(''wallet'', JStr wallet), (''name'', JStr name)]
                  (db\<lparr>voters := voters db @
                       [\<lparr>vo_walletAddress = wallet, vo_name = name, vo_idNumber = idNumber,
                         vo_email = email, vo_status = ''Activo''\<rparr>]\<rparr>))))))))"

definition registerVoter :: "database \<Rightarrow> jsobject \<Rightarrow> (error, string) reply \<times> database" where
  "registerVoter db data =
     (case registerVoter_try db data of
        Inr (wallet, db') \<Rightarrow> (Success wallet, db')
      | Inl e \<Rightarrow>
          (Failure e,
           logAudit ''registerVoter'' (js_or (field data ''walletAddress'') (JStr ''unknown''))
             data ''error'' (Some e) db))"

subsection \<open>createElection\<close>

definition createElection_try ::
    "config \<Rightarrow> database \<Rightarrow> jsobject \<Rightarrow> error + (int \<times> database)" where
  "createElection_try cfg db data =
     (case js_lower_trim (js_or (field data ''adminAddress'') (JStr [])) of
        Inl e \<Rightarrow> Inl e
      | Inr admin \<Rightarrow>
     (case js_trim (js_or (field data ''title'') (JStr [])) of
        Inl e \<Rightarrow> Inl e
      | Inr title \<Rightarrow>
     (case js_trim (js_or (field data ''description'') (JStr [])) of
        Inl e \<Rightarrow> Inl e
      | Inr description \<Rightarrow>
        if admin = [] \<or> title = [] then Inl MissingAdminOrTitle
        else if \<not> List.member (ADMIN_ADDRESSES cfg) admin then Inl Unauthorized
        else
          (let electionId = int (length (elections db)) + 1
           in Inr (electionId,
             updateStats
               (logAudit ''createElection'' (JStr admin)
                  [(''title'', JStr title), (''electionId'', JNum electionId)] ''success'' None
                  (logBlockchain ''createElection''
                     [(''admin'', JStr admin), (''title'', JStr title),
                      (''electionId'', JNum electionId)]
                     (db\<lparr>elections := elections db @
                          [\<lparr>el_electionId = electionId, el_title = title,
                            el_description = description,
                            el_startDate = js_or (field data ''startDate'') (JStr []),
                            el_endDate = js_or (field data ''endDate'') (JStr []),
                            el_status = ''Activa'', el_totalVotes = 0,
                            el_contractAddress = VOTING_CONTRACT_ADDRESS cfg\<rparr>]\<rparr>))))))))"

definition createElection :: "config \<Rightarrow> database \<Rightarrow> jsobject \<Rightarrow> (error, int) reply \<times> database" where
  "createElection cfg db data =
     (case createElection_try cfg db data of
        Inr (electionId, db') \<Rightarrow> (Success electionId, db')
      | Inl e \<Rightarrow>
          (Failure e,
           logAudit ''createElection'' (js_or (field data ''adminAddress'') (JStr ''unknown''))
             data ''error'' (Some e) db))"

subsection \<open>addCandidate\<close>

definition addCandidate_try :: "database \<Rightarrow> jsobject \<Rightarrow> error + (int \<times> database)" where
  "addCandidate_try db data =
     (let parsed = parseInt (js_or (field data ''electionId'') (field data ''election''))
      in
     (case js_trim (js_or (field data ''name'') (JStr [])) of
        Inl e \<Rightarrow> Inl e
      | Inr name \<Rightarrow>
     (case js_trim (js_or (js_or (field data ''party'') (field data ''proposal'')) (JStr [])) of
        Inl e \<Rightarrow> Inl e
      | Inr party \<Rightarrow>
        if not_num parsed \<or> name = [] then Inl MissingElectionOrName
        else
          (let electionId = the parsed
           in if find (\<lambda>e. el_electionId e = electionId) (elections db) = None
              then Inl ElectionNotFound
              else
                (let existingCandidates =
                       filter (\<lambda>c. ca_electionId c = electionId) (candidates db);
                     candidateId = int (length existingCandidates) + 1
                 in Inr (candidateId,
                   logAudit ''addCandidate'' (JStr ''system'')
                     [(''electionId'', JNum electionId), (''name'', JStr name)] ''success'' None
                     (logBlockchain ''addCandidate''
                        [(''electionId'', JNum electionId), (''candidateId'', JNum candidateId),
                         (''name'', JStr name), (''party'', JStr party)]
                        (db\<lparr>candidates := candidates db @
                             [\<lparr>ca_electionId = electionId, ca_candidateId = candidateId,
                               ca_name = name, ca_party = party, ca_votes = 0,
                               ca_percentage = PctZero\<rparr>]\<rparr>))))))))"

definition addCandidate :: "database \<Rightarrow> jsobject \<Rightarrow> (error, int) reply \<times> database" where
  "addCandidate db data =
     (case addCandidate_try db data of
        Inr (candidateId, db') \<Rightarrow> (Success candidateId, db')
      | Inl e \<Rightarrow>
          (Failure e, logAudit ''addCandidate'' (JStr ''system'') data ''error'' (Some e) db))"

subsection \<open>The tally: updateCandidateVotes and updateElectionTotalVotes\<close>

text \<open>
  \<^verbatim>\<open>voteCounts[v.candidateId] = (voteCounts[v.candidateId] || 0) + 1\<close> on the object
  \<^verbatim>\<open>voteCounts\<close>, kept as an association list.
\<close>

fun bump :: "int \<Rightarrow> (int \<times> nat) list \<Rightarrow> (int \<times> nat) list" where
  "bump k [] = [(k, 1)]"
| "bump k ((k', n) # rest) = (if k = k' then (k', n + 1) # rest else (k', n) # bump k rest)"

definition voteCounts :: "vote list \<Rightarrow> int \<Rightarrow> (int \<times> nat) list" where
  "voteCounts vs electionId =
     fold (\<lambda>v acc. bump (vt_candidateId v) acc)
       (filter (\<lambda>v. vt_electionId v = electionId) vs) []"

definition updateCandidateVotes :: "int \<Rightarrow> database \<Rightarrow> database" where
  "updateCandidateVotes electionId db =
     (let counts = voteCounts (votes db) electionId;
          total = sum_list (map snd counts)
      in db\<lparr>candidates :=
            map (\<lambda>c. if ca_electionId c = electionId
                     then (let count = (case map_of counts (ca_candidateId c) of
                                           None \<Rightarrow> 0 | Some n \<Rightarrow> n)
                           in c\<lparr>ca_votes := count,
                                ca_percentage :=
                                  (if total > 0 then PctFixed2 count total else PctZero)\<rparr>)
                     else c)
              (candidates db)\<rparr>)"

text \<open>\<^verbatim>\<open>find\<close> returns the first match; the assignment changes that one element.\<close>

fun update_first :: "('a \<Rightarrow> bool) \<Rightarrow> ('a \<Rightarrow> 'a) \<Rightarrow> 'a list \<Rightarrow> 'a list" where
  "update_first P f [] = []"
| "update_first P f (x # xs) = (if P x then f x # xs else x # update_first P f xs)"

definition updateElectionTotalVotes :: "int \<Rightarrow> database \<Rightarrow> database" where
  "updateElectionTotalVotes electionId db =
     (let total = length (filter (\<lambda>v. vt_electionId v = electionId) (votes db))
      in db\<lparr>elections :=
            update_first (\<lambda>e. el_electionId e = electionId) (\<lambda>e. e\<lparr>el_totalVotes := total\<rparr>)
              (elections db)\<rparr>)"

text \<open>The recomputation as \<^verbatim>\<open>recordVote\<close> runs it after the push.\<close>

definition recompute :: "int \<Rightarrow> database \<Rightarrow> database" where
  "recompute electionId db = updateElectionTotalVotes electionId (updateCandidateVotes electionId db)"

subsection \<open>recordVote (also dispatched as castVote)\<close>

definition recordVote_try :: "database \<Rightarrow> jsobject \<Rightarrow> error + (jsval \<times> database)" where
  "recordVote_try db data =
     (let txHash = js_or (js_or (field data ''txHash'') (field data ''transactionHash'')) (JStr [])
      in
     (case js_lower_trim
             (js_or (js_or (js_or (field data ''walletAddress'') (field data ''voter''))
                       (field data ''from'')) (JStr [])) of
        Inl e \<Rightarrow> Inl e
      | Inr wallet \<Rightarrow>
        (let parsedElection = parseInt (field data ''electionId'');
             parsedCandidate = parseInt (field data ''candidateId'')
         in if wallet = [] \<or> not_num parsedElection \<or> not_num parsedCandidate
            then Inl MissingVoteData
            else
              (let electionId = the parsedElection;
                   candidateId = the parsedCandidate
               in if list_ex (\<lambda>v. toLowerCase (vt_walletAddress v) = wallet \<and>
                                    vt_electionId v = electionId) (votes db)
                  then Inl AlreadyVoted
                  else if find (\<lambda>c. ca_electionId c = electionId \<and> ca_candidateId c = candidateId)
                            (candidates db) = None
                  then Inl CandidateNotFound
                  else Inr (txHash,
                    updateStats
                      (logAudit ''castVote'' (JStr wallet)
                         [(''electionId'', JNum electionId), (''candidateId'', JNum candidateId)]
                         ''success'' None
                         (logBlockchain ''castVote''
                            [(''wallet'', JStr wallet), (''electionId'', JNum electionId),
                             (''candidateId'', JNum candidateId), (''txHash'', txHash)]
                            (recompute electionId
                               (db\<lparr>votes := votes db @
                                    [\<lparr>vt_txHash = txHash, vt_walletAddress = wallet,
                                      vt_electionId = electionId, vt_candidateId = candidateId,
                                      vt_blockNumber = js_or (field data ''blockNumber'') (JNum 0),
                                      vt_gasUsed = js_or (field data ''gasUsed'') (JNum 0),
                                      vt_status = ''Confirmado''\<rparr>]\<rparr>)))))))))"

definition recordVote :: "database \<Rightarrow> jsobject \<Rightarrow> (error, jsval) reply \<times> database" where
  "recordVote db data =
     (case recordVote_try db data of
        Inr (txHash, db') \<Rightarrow> (Success txHash, db')
      | Inl e \<Rightarrow>
          (Failure e,
           logAudit ''recordVote'' (js_or (field data ''walletAddress'') (JStr ''unknown''))
             data ''error'' (Some e) db))"

subsection \<open>getActiveElections\<close>




subsection \<open>The dispatcher\<close>

text \<open>
  \<^verbatim>\<open>handleAction\<close>, as far as the state goes: the four mutating actions, the alias
  \<^verbatim>\<open>castVote\<close> and \<^verbatim>\<open>init\<close>; the read-only actions and an unknown action (which throws)
  leave \<^verbatim>\<open>DATABASE\<close> as it is.
\<close>

definition handleAction_state :: "config \<Rightarrow> string \<times> jsobject \<Rightarrow> database \<Rightarrow> database" where
  "handleAction_state cfg req db =
     (let action = fst req; data = snd req
      in if action = ''init'' then initializeSystem db
         else if action = ''registerVoter'' then snd (registerVoter db data)
         else if action = ''createElection'' then snd (createElection cfg db data)
         else if action = ''addCandidate'' then snd (addCandidate db data)
         else if action = ''recordVote'' then snd (recordVote db data)
         else if action = ''castVote'' then snd (recordVote db data)
         else db)"

text \<open>
  The state after a sequence of requests to \<^verbatim>\<open>/api\<close>, served one after the other. A saved
  \<^verbatim>\<open>database.json\<close> and the development route \<^verbatim>\<open>/import\<close> can install any state at all;
  what is proved of reachable states is proved of runs from the empty database.
\<close>

definition run :: "config \<Rightarrow> (string \<times> jsobject) list \<Rightarrow> database \<Rightarrow> database" where
  "run cfg reqs db = fold (handleAction_state cfg) reqs db"

section \<open>backend.js\<close>

text \<open>
  The second server keeps its state in a JSON file that every request reads, changes and
  writes back. The branches of its \<^verbatim>\<open>/api\<close> handler are modelled for a request that has passed
  the \<^verbatim>\<open>antiSpam\<close> gate (a request arriving within 800 ms of the previous one of the same
  action is answered 429 before the file is read).

  Messages: \<open>B_IncompleteFields\<close> is Campos incompletos, \<open>B_WalletRegistered\<close> is Wallet ya
  registrada, \<open>B_ElectionAndNameRequired\<close> is electionId y name requeridos, \<open>B_MissingData\<close>
  is Faltan datos, \<open>B_AlreadyVoted\<close> is Ya voto.
\<close>

datatype b_error =
    B_IncompleteFields
  | B_WalletRegistered
  | B_ElectionAndNameRequired
  | B_MissingData
  | B_AlreadyVoted

text \<open>
  \<^verbatim>\<open>Number(s)\<close> of a string: white space is trimmed on both sides; the empty string is 0; a
  signed decimal integer, or an unsigned integer with a \<^verbatim>\<open>0x\<close>, \<^verbatim>\<open>0o\<close> or \<^verbatim>\<open>0b\<close> prefix, is its
  value; any other text is \<^verbatim>\<open>NaN\<close>, here \<open>None\<close>. Numerals with a fraction or an exponent
  and \<^verbatim>\<open>Infinity\<close> denote numbers outside the integers of this model and are not covered:
  for them the definition answers \<open>None\<close> where JavaScript has a number.
\<close>

definition radix_literal :: "nat \<Rightarrow> string \<Rightarrow> int option" where
  "radix_literal radix ds =
     (if ds \<noteq> [] \<and> list_all (is_digit radix) ds then Some (int (digits_value radix ds))
      else None)"

definition Number_string :: "string \<Rightarrow> int option" where
  "Number_string s =
     (let t = trim s
      in if t = [] then Some 0
         else if take 2 t = ''0x'' \<or> take 2 t = ''0X'' then radix_literal 16 (drop 2 t)
         else if take 2 t = ''0o'' \<or> take 2 t = ''0O'' then radix_literal 8 (drop 2 t)
         else if take 2 t = ''0b'' \<or> take 2 t = ''0B'' then radix_literal 2 (drop 2 t)
         else if take 1 t = ''-'' then map_option uminus (radix_literal 10 (drop 1 t))
         else if take 1 t = ''+'' then radix_literal 10 (drop 1 t)
         else radix_literal 10 t)"

fun Number :: "jsval \<Rightarrow> int option" where
  "Number JUndefined = None"
| "Number JNull = Some 0"
| "Number (JBool b) = Some (if b then 1 else 0)"
| "Number (JNum n) = Some n"
| "Number (JStr s) = Number_string s"

text \<open>A number as the JSON file gives it back: \<^verbatim>\<open>NaN\<close> is written as \<^verbatim>\<open>null\<close>.\<close>

definition json_number :: "int option \<Rightarrow> jsval" where
  "json_number n = (case n of None \<Rightarrow> JNull | Some i \<Rightarrow> JNum i)"

record b_voter =
  bv_VoterID :: int
  bv_Wallet :: jsval
  bv_Name :: jsval
  bv_IDNumber :: jsval
  bv_Email :: jsval
  bv_IP :: jsval

record b_election =
  be_ElectionID :: int
  be_Title :: jsval
  be_Description :: jsval
  be_StartDate :: jsval
  be_EndDate :: jsval
  be_TotalVotes :: int

record b_candidate =
  bc_CandidateID :: int
  bc_ElectionID :: jsval
  bc_Name :: jsval
  bc_Party :: jsval
  bc_Votes :: int

record b_vote =
  bt_VoteID :: int
  bt_Wallet :: jsval
  bt_ElectionID :: jsval
  bt_CandidateID :: jsval

record b_activity =
  ba_type :: string
  ba_data :: jsobject

record b_database =
  b_voters :: "b_voter list"
  b_elections :: "b_election list"
  b_candidates :: "b_candidate list"
  b_votes :: "b_vote list"
  b_sysActivity :: "b_activity list"

definition DEFAULT_DB :: b_database where
  "DEFAULT_DB = \<lparr>b_voters = [], b_elections = [], b_candidates = [], b_votes = [],
                  b_sysActivity = []\<rparr>"

text \<open>\<^verbatim>\<open>nextId(collection, keyName)\<close>, given the key's values in the collection.\<close>

definition nextId :: "int list \<Rightarrow> int" where
  "nextId keys = (case keys of [] \<Rightarrow> 1 | k # rest \<Rightarrow> fold max rest k + 1)"

subsection \<open>registerVoter\<close>

definition b_registerVoter ::
    "b_database \<Rightarrow> jsobject \<Rightarrow> (b_error, b_voter) reply \<times> b_database" where
  "b_registerVoter db body =
     (let walletAddress = field body ''walletAddress'';
          name = field body ''name'';
          idNumber = field body ''idNumber''
      in if \<not> (truthy walletAddress \<and> truthy name \<and> truthy idNumber)
         then (Failure B_IncompleteFields, db)
         else
           (let walletLower = toLowerCase (String walletAddress)
            in if list_ex (\<lambda>v. toLowerCase (String (js_or (bv_Wallet v) (JStr []))) = walletLower)
                    (b_voters db)
               then (Failure B_WalletRegistered, db)
               else
                 (let VoterID = nextId (map bv_VoterID (b_voters db));
                      voter = \<lparr>bv_VoterID = VoterID, bv_Wallet = walletAddress, bv_Name = name,
                               bv_IDNumber = idNumber,
                               bv_Email = js_or (field body ''email'') (JStr []),
                               bv_IP = js_or (field body ''ipAddress'') (JStr [])\<rparr>
                  in (Success voter, db\<lparr>b_voters := b_voters db @ [voter]\<rparr>))))"

subsection \<open>getActiveElections\<close>









subsection \<open>createElection and addCandidate\<close>

definition b_createElection :: "b_database \<Rightarrow> jsobject \<Rightarrow> b_election \<times> b_database" where
  "b_createElection db body =
     (let id = nextId (map be_ElectionID (b_elections db));
          e = \<lparr>be_ElectionID = id,
               be_Title = js_or (field body ''title'')
                 (JStr (''Elecci'' @ [CHR 0xC3, CHR 0xB3] @ ''n '' @ string_of_int id)),
               be_Description = js_or (field body ''description'') (JStr []),
               be_StartDate = js_or (field body ''startDate'') JNull,
               be_EndDate = js_or (field body ''endDate'') JNull,
               be_TotalVotes = 0\<rparr>
      in (e, db\<lparr>b_elections := b_elections db @ [e]\<rparr>))"

definition b_addCandidate ::
    "b_database \<Rightarrow> jsobject \<Rightarrow> (b_error, b_candidate) reply \<times> b_database" where
  "b_addCandidate db body =
     (if \<not> (truthy (field body ''electionId'') \<and> truthy (field body ''name''))
      then (Failure B_ElectionAndNameRequired, db)
      else
        (let id = nextId (map bc_CandidateID (b_candidates db));
             c = \<lparr>bc_CandidateID = id,
                  bc_ElectionID = json_number (Number (field body ''electionId'')),
                  bc_Name = field body ''name'',
                  bc_Party = js_or (field body ''party'') (JStr []),
                  bc_Votes = 0\<rparr>
         in (Success c, db\<lparr>b_candidates := b_candidates db @ [c]\<rparr>)))"

subsection \<open>castVote\<close>

definition b_castVote :: "b_database \<Rightarrow> jsobject \<Rightarrow> (b_error, b_vote) reply \<times> b_database" where
  "b_castVote db body =
     (let walletAddress = field body ''walletAddress'';
          electionId = field body ''electionId'';
          candidateId = field body ''candidateId''
      in if \<not> (truthy walletAddress \<and> truthy electionId \<and> truthy candidateId)
         then (Failure B_MissingData, db)
         else
           (let walletLower = toLowerCase (String walletAddress)
            in if list_ex (\<lambda>v. toLowerCase (String (js_or (bt_Wallet v) (JStr []))) = walletLower \<and>
                                 String (bt_ElectionID v) = String electionId) (b_votes db)
               then (Failure B_AlreadyVoted, db)
               else
                 (let VoteID = nextId (map bt_VoteID (b_votes db));
                      vote = \<lparr>bt_VoteID = VoteID, bt_Wallet = walletAddress,
                              bt_ElectionID = json_number (Number electionId),
                              bt_CandidateID = json_number (Number candidateId)\<rparr>
                  in (Success vote,
                      db\<lparr>b_votes := b_votes db @ [vote],
                         b_candidates :=
                           update_first (\<lambda>c. string_of_int (bc_CandidateID c) = String candidateId)
                             (\<lambda>c. c\<lparr>bc_Votes := bc_Votes c + 1\<rparr>) (b_candidates db),
                         b_elections :=
                           update_first (\<lambda>e. string_of_int (be_ElectionID e) = String electionId)
                             (\<lambda>e. e\<lparr>be_TotalVotes := be_TotalVotes e + 1\<rparr>) (b_elections db),
                         b_sysActivity := b_sysActivity db @
                           [\<lparr>ba_type = ''vote'',
                             ba_data = [(''electionId'', electionId),
                                        (''candidateId'', candidateId)]\<rparr>]\<rparr>))))"

subsection \<open>The /api handler and its rate limit\<close>

text \<open>
  \<^verbatim>\<open>antiSpam(action)\<close> at clock reading \<open>now\<close>: the object \<^verbatim>\<open>lastCall\<close> is kept as an
  association list, newest entry first. A request is refused when the same action was
  let through less than 800 ms ago; a refused request does not move the mark. (Actions
  named like a property of \<^verbatim>\<open>Object.prototype\<close> are not modelled.)
\<close>

definition antiSpam :: "int \<Rightarrow> jsval \<Rightarrow> (string \<times> int) list \<Rightarrow> bool \<times> (string \<times> int) list" where
  "antiSpam now action lastCall =
     (if \<not> truthy action then (True, lastCall)
      else (case map_of lastCall (String action) of
              None \<Rightarrow> (True, (String action, now) # lastCall)
            | Some t \<Rightarrow>
                if t \<noteq> 0 \<and> now - t < 800 then (False, lastCall)
                else (True, (String action, now) # lastCall)))"

text \<open>
  The reply of \<^verbatim>\<open>POST /api\<close>: 429 Too many requests from the gate, or the reply of the
  branch the action selects. The read-only branches and an unknown action are \<open>OtherReply\<close>;
  they leave the database as it is.
\<close>

datatype b_response =
    TooManyRequests
  | VoterReply "(b_error, b_voter) reply"
  | ElectionReply b_election
  | CandidateReply "(b_error, b_candidate) reply"
  | VoteReply "(b_error, b_vote) reply"
  | OtherReply

definition b_api ::
    "int \<Rightarrow> jsobject \<Rightarrow> (string \<times> int) list \<times> b_database \<Rightarrow>
       b_response \<times> ((string \<times> int) list \<times> b_database)" where
  "b_api now body st =
     (let action = field body ''action'';
          db = snd st;
          gate = antiSpam now action (fst st)
      in if \<not> fst gate then (TooManyRequests, st)
         else if action = JStr ''registerVoter''
           then (VoterReply (fst (b_registerVoter db body)), (snd gate, snd (b_registerVoter db body)))
         else if action = JStr ''createElection''
           then (ElectionReply (fst (b_createElection db body)), (snd gate, snd (b_createElection db body)))
         else if action = JStr ''addCandidate''
           then (CandidateReply (fst (b_addCandidate db body)), (snd gate, snd (b_addCandidate db body)))
         else if action = JStr ''castVote''
           then (VoteReply (fst (b_castVote db body)), (snd gate, snd (b_castVote db body)))
         else (OtherReply, (snd gate, db)))"

text \<open>The state after a sequence of requests to \<^verbatim>\<open>backend.js\<close>, each let through by \<^verbatim>\<open>antiSpam\<close>.\<close>

definition b_handle :: "string \<times> jsobject \<Rightarrow> b_database \<Rightarrow> b_database" where
  "b_handle req db =
     (let action = fst req; body = snd req
      in if action = ''registerVoter'' then snd (b_registerVoter db body)
         else if action = ''createElection'' then snd (b_createElection db body)
         else if action = ''addCandidate'' then snd (b_addCandidate db body)
         else if action = ''castVote'' then snd (b_castVote db body)
         else db)"

definition b_run :: "(string \<times> jsobject) list \<Rightarrow> b_database \<Rightarrow> b_database" where
  "b_run reqs db = fold b_handle reqs db"

section \<open>Notions used to state the properties\<close>

text \<open>The candidates of an election and the votes of an election or of one of its candidates.\<close>

definition candidates_of :: "database \<Rightarrow> int \<Rightarrow> candidate list" where
  "candidates_of db e = filter (\<lambda>c. ca_electionId c = e) (candidates db)"

definition votes_of :: "database \<Rightarrow> int \<Rightarrow> vote list" where
  "votes_of db e = filter (\<lambda>v. vt_electionId v = e) (votes db)"

definition votes_for :: "database \<Rightarrow> int \<Rightarrow> int \<Rightarrow> vote list" where
  "votes_for db e c = filter (\<lambda>v. vt_electionId v = e \<and> vt_candidateId v = c) (votes db)"

text \<open>\<^verbatim>\<open>voteCounts[k] || 0\<close>\<close>

definition count_in :: "(int \<times> nat) list \<Rightarrow> int \<Rightarrow> nat" where
  "count_in counts k = (case map_of counts k of None \<Rightarrow> 0 | Some n \<Rightarrow> n)"

text \<open>
  The tally in the specification's words: a candidate of the election gets the number of the
  election's votes that name it, and the percentage of that number in the election's votes
  (the literal zero when the election has none); any other candidate is left as it is.
\<close>

definition tallied :: "vote list \<Rightarrow> int \<Rightarrow> candidate \<Rightarrow> candidate" where
  "tallied vs e c =
     (if ca_electionId c = e
      then c\<lparr>ca_votes := length (filter (\<lambda>v. vt_electionId v = e \<and> vt_candidateId v = ca_candidateId c) vs),
             ca_percentage :=
               (if 0 < length (filter (\<lambda>v. vt_electionId v = e) vs)
                then PctFixed2 (length (filter (\<lambda>v. vt_electionId v = e \<and> vt_candidateId v = ca_candidateId c) vs))
                       (length (filter (\<lambda>v. vt_electionId v = e) vs))
                else PctZero)\<rparr>
      else c)"

text \<open>The database with its cached fields replaced by arbitrary values: a cold start.\<close>

definition with_caches ::
    "(candidate \<Rightarrow> nat) \<Rightarrow> (candidate \<Rightarrow> percentage) \<Rightarrow> (election \<Rightarrow> nat) \<Rightarrow> database \<Rightarrow> database" where
  "with_caches f g h db =
     db\<lparr>candidates := map (\<lambda>c. c\<lparr>ca_votes := f c, ca_percentage := g c\<rparr>) (candidates db),
        elections := map (\<lambda>x. x\<lparr>el_totalVotes := h x\<rparr>) (elections db)\<rparr>"

text \<open>
  Tally consistency: for every election the votes of its candidates add up to its
  \<^verbatim>\<open>totalVotes\<close>, which is the number of its votes in the ledger, and every candidate's
  \<^verbatim>\<open>votes\<close> is the number of ledger votes for it.
\<close>

definition tally_consistent :: "database \<Rightarrow> bool" where
  "tally_consistent db =
     (list_all (\<lambda>e. sum_list (map ca_votes (candidates_of db (el_electionId e))) = el_totalVotes e \<and>
                    el_totalVotes e = length (votes_of db (el_electionId e))) (elections db) \<and>
      list_all (\<lambda>c. ca_votes c = length (votes_for db (ca_electionId c) (ca_candidateId c)))
        (candidates db))"

text \<open>The same for \<^verbatim>\<open>backend.js\<close>, whose votes and candidates carry the election as a JSON number.\<close>

definition b_tally_consistent :: "b_database \<Rightarrow> bool" where
  "b_tally_consistent db =
     list_all (\<lambda>e. sum_list (map bc_Votes
                       (filter (\<lambda>c. bc_ElectionID c = JNum (be_ElectionID e)) (b_candidates db))) =
                      be_TotalVotes e \<and>
                    be_TotalVotes e =
                      int (length (filter (\<lambda>v. bt_ElectionID v = JNum (be_ElectionID e)) (b_votes db))))
       (b_elections db)"

text \<open>The invariants of the ledger of \<^verbatim>\<open>server.js\<close>.\<close>

definition dense_candidates :: "database \<Rightarrow> bool" where
  "dense_candidates db =
     (\<forall>e. map ca_candidateId (candidates_of db e) =
            map int [1..<Suc (length (candidates_of db e))])"

definition dense_elections :: "database \<Rightarrow> bool" where
  "dense_elections db =
     (map el_electionId (elections db) = map int [1..<Suc (length (elections db))])"

definition votes_refer :: "database \<Rightarrow> bool" where
  "votes_refer db =
     list_all (\<lambda>v. list_ex (\<lambda>c. ca_electionId c = vt_electionId v \<and>
                                 ca_candidateId c = vt_candidateId v) (candidates db)) (votes db)"

definition candidates_refer :: "database \<Rightarrow> bool" where
  "candidates_refer db =
     list_all (\<lambda>c. list_ex (\<lambda>e. el_electionId e = ca_electionId c) (elections db)) (candidates db)"

definition candidate_tally :: "database \<Rightarrow> bool" where
  "candidate_tally db =
     list_all (\<lambda>c. ca_votes c = length (votes_for db (ca_electionId c) (ca_candidateId c)))
       (candidates db)"

definition election_tally :: "database \<Rightarrow> bool" where
  "election_tally db =
     list_all (\<lambda>e. el_totalVotes e = length (votes_of db (el_electionId e))) (elections db)"

definition ledger_inv :: "database \<Rightarrow> bool" where
  "ledger_inv db =
     (dense_candidates db \<and> dense_elections db \<and> votes_refer db \<and> candidates_refer db \<and>
      candidate_tally db \<and> election_tally db)"

text \<open>A request field that a string method can be called on: a string, or a falsy value
  (which \<^verbatim>\<open>|| ''\<close> replaces by the empty string).\<close>

definition string_or_absent :: "jsval \<Rightarrow> bool" where
  "string_or_absent v = (case v of JStr s \<Rightarrow> True | _ \<Rightarrow> \<not> truthy v)"




text \<open>A configuration with one administrator, for the worked examples.\<close>

definition demo_config :: config where
  "demo_config = \<lparr>ADMIN_ADDRESSES = [''0xadmin''], VOTING_CONTRACT_ADDRESS = []\<rparr>"

text \<open>One election with two candidates and no voter on file.\<close>

definition demo_ballot :: database where
  "demo_ballot =
     run demo_config
       [(''createElection'', [(''adminAddress'', JStr ''0xADMIN''), (''title'', JStr ''E1'')]),
        (''addCandidate'', [(''electionId'', JNum 1), (''name'', JStr ''Alice'')]),
        (''addCandidate'', [(''electionId'', JNum 1), (''name'', JStr ''Bob'')])]
       DATABASE0"

text \<open>
  What an operation of \<^verbatim>\<open>server.js\<close> leaves in the two logs: one more audit entry that
  records the outcome, and, on success only, one more block whose number is the length the
  chain had.
\<close>

definition logged :: "database \<Rightarrow> (error, 'a) reply \<times> database \<Rightarrow> bool" where
  "logged db r =
     (let db' = snd r
      in audit db' \<noteq> [] \<and> butlast (audit db') = audit db \<and>
         (case fst r of
            Success x \<Rightarrow>
              au_status (last (audit db')) = ''success'' \<and> au_error (last (audit db')) = None \<and>
              blockchain db' \<noteq> [] \<and> butlast (blockchain db') = blockchain db \<and>
              bl_blockNumber (last (blockchain db')) = length (blockchain db)
          | Failure e \<Rightarrow>
              au_status (last (audit db')) = ''error'' \<and> au_error (last (audit db')) = Some e \<and>
              blockchain db' = blockchain db))"

definition chain_numbered :: "database \<Rightarrow> bool" where
  "chain_numbered db = (map bl_blockNumber (blockchain db) = [0..<length (blockchain db)])"

text \<open>Two elections in \<^verbatim>\<open>backend.js\<close>, the first with one candidate.\<close>

definition b_two_elections :: b_database where
  "b_two_elections =
     b_run [(''createElection'', [(''title'', JStr ''E1'')]),
            (''createElection'', [(''title'', JStr ''E2'')]),
            (''addCandidate'', [(''electionId'', JNum 1), (''name'', JStr ''Alice'')])]
       DEFAULT_DB"



section \<open>Facts about the model\<close>

subsection \<open>Lower case and trimming\<close>

lemma lower_char_idem: "lower_char (lower_char c) = lower_char c"
  by (simp add: lower_char_def Let_def)

lemma toLowerCase_idem: "toLowerCase (toLowerCase s) = toLowerCase s"
  by (simp add: toLowerCase_def lower_char_idem)

lemma set_trim: "set (trim s) \<subseteq> set s"
proof -
  have "set (trim s) \<subseteq> set (rev (dropWhile is_space s))"
    unfolding trim_def using set_dropWhileD by fastforce
  also have "\<dots> \<subseteq> set s"
    using set_dropWhileD by fastforce
  finally show ?thesis .
qed

lemma toLowerCase_fixed: "(\<And>c. c \<in> set s \<Longrightarrow> lower_char c = c) \<Longrightarrow> toLowerCase s = s"
  by (simp add: toLowerCase_def map_idI)

lemma toLowerCase_trim_lower: "toLowerCase (trim (toLowerCase s)) = trim (toLowerCase s)"
proof (rule toLowerCase_fixed)
  fix c assume "c \<in> set (trim (toLowerCase s))"
  then have "c \<in> set (toLowerCase s)" using set_trim by blast
  then show "lower_char c = c" by (auto simp: toLowerCase_def lower_char_idem)
qed

lemma js_lower_trim_lower: "js_lower_trim v = Inr w \<Longrightarrow> toLowerCase w = w"
  by (cases v) (auto simp: toLowerCase_trim_lower)

subsection \<open>What the helpers of server.js leave unchanged\<close>

lemma logAudit_simps [simp]:
  "voters (logAudit a u d s e db) = voters db"
  "elections (logAudit a u d s e db) = elections db"
  "candidates (logAudit a u d s e db) = candidates db"
  "votes (logAudit a u d s e db) = votes db"
  "blockchain (logAudit a u d s e db) = blockchain db"
  "audit (logAudit a u d s e db) = audit db @ [\<lparr>au_action = a, au_user = u, au_details = d, au_status = s, au_error = e\<rparr>]"
  by (simp_all add: logAudit_def)

lemma logBlockchain_simps [simp]:
  "voters (logBlockchain a d db) = voters db"
  "elections (logBlockchain a d db) = elections db"
  "candidates (logBlockchain a d db) = candidates db"
  "votes (logBlockchain a d db) = votes db"
  "audit (logBlockchain a d db) = audit db"
  "blockchain (logBlockchain a d db) = blockchain db @ [\<lparr>bl_action = a, bl_details = d, bl_blockNumber = length (blockchain db)\<rparr>]"
  by (simp_all add: logBlockchain_def)

lemma updateStats_simps [simp]:
  "voters (updateStats db) = voters db"
  "elections (updateStats db) = elections db"
  "candidates (updateStats db) = candidates db"
  "votes (updateStats db) = votes db"
  "audit (updateStats db) = audit db"
  "blockchain (updateStats db) = blockchain db"
  by (simp_all add: updateStats_def)

lemma recompute_simps [simp]:
  "voters (recompute e db) = voters db"
  "votes (recompute e db) = votes db"
  "audit (recompute e db) = audit db"
  "blockchain (recompute e db) = blockchain db"
  by (simp_all add: recompute_def updateElectionTotalVotes_def updateCandidateVotes_def Let_def)

subsection \<open>What a successful operation of server.js did\<close>

lemma registerVoter_try_Inr:
  "registerVoter_try db data = Inr (w, db') \<Longrightarrow>
     js_lower_trim (js_or (js_or (field data ''walletAddress'') (field data ''wallet'')) (JStr [])) = Inr w \<and>
     \<not> list_ex (\<lambda>v. toLowerCase (vo_walletAddress v) = w) (voters db) \<and>
     (\<exists>v. vo_walletAddress v = w \<and> voters db' = voters db @ [v]) \<and>
     elections db' = elections db \<and> candidates db' = candidates db \<and> votes db' = votes db \<and>
     (\<exists>a. audit db' = audit db @ [a] \<and> au_status a = ''success'' \<and> au_error a = None) \<and>
     (\<exists>d. blockchain db' = blockchain db @ [\<lparr>bl_action = ''registerVoter'', bl_details = d, bl_blockNumber = length (blockchain db)\<rparr>])"
  unfolding registerVoter_try_def
  by (auto split: sum.splits if_splits)

lemma createElection_try_Inr:
  "createElection_try cfg db data = Inr (i, db') \<Longrightarrow>
     (\<exists>admin. js_lower_trim (js_or (field data ''adminAddress'') (JStr [])) = Inr admin \<and>
        admin \<noteq> [] \<and> List.member (ADMIN_ADDRESSES cfg) admin) \<and>
     i = int (length (elections db)) + 1 \<and>
     (\<exists>e. el_electionId e = i \<and> el_totalVotes e = 0 \<and> el_status e = ''Activa'' \<and>
          el_startDate e = js_or (field data ''startDate'') (JStr []) \<and>
          el_endDate e = js_or (field data ''endDate'') (JStr []) \<and>
          elections db' = elections db @ [e]) \<and>
     voters db' = voters db \<and> candidates db' = candidates db \<and> votes db' = votes db \<and>
     (\<exists>a. audit db' = audit db @ [a] \<and> au_status a = ''success'' \<and> au_error a = None) \<and>
     (\<exists>d. blockchain db' = blockchain db @ [\<lparr>bl_action = ''createElection'', bl_details = d, bl_blockNumber = length (blockchain db)\<rparr>])"
  unfolding createElection_try_def
  by (auto simp: Let_def split: sum.splits if_splits)

lemma addCandidate_try_Inr:
  "addCandidate_try db data = Inr (i, db') \<Longrightarrow>
     (\<exists>e. parseInt (js_or (field data ''electionId'') (field data ''election'')) = Some e \<and> e \<noteq> 0 \<and>
        find (\<lambda>x. el_electionId x = e) (elections db) \<noteq> None \<and>
        i = int (length (filter (\<lambda>c. ca_electionId c = e) (candidates db))) + 1 \<and>
        (\<exists>c. ca_electionId c = e \<and> ca_candidateId c = i \<and> ca_votes c = 0 \<and> ca_percentage c = PctZero \<and>
             candidates db' = candidates db @ [c])) \<and>
     voters db' = voters db \<and> elections db' = elections db \<and> votes db' = votes db \<and>
     (\<exists>a. audit db' = audit db @ [a] \<and> au_status a = ''success'' \<and> au_error a = None) \<and>
     (\<exists>d. blockchain db' = blockchain db @ [\<lparr>bl_action = ''addCandidate'', bl_details = d, bl_blockNumber = length (blockchain db)\<rparr>])"
  unfolding addCandidate_try_def
  by (auto simp: Let_def not_num_def split: sum.splits if_splits option.splits)

lemma recordVote_try_Inr:
  "recordVote_try db data = Inr (t, db') \<Longrightarrow>
     (\<exists>w e c. js_lower_trim (js_or (js_or (js_or (field data ''walletAddress'') (field data ''voter''))
                       (field data ''from'')) (JStr [])) = Inr w \<and> w \<noteq> [] \<and>
        parseInt (field data ''electionId'') = Some e \<and> e \<noteq> 0 \<and>
        parseInt (field data ''candidateId'') = Some c \<and> c \<noteq> 0 \<and>
        \<not> list_ex (\<lambda>v. toLowerCase (vt_walletAddress v) = w \<and> vt_electionId v = e) (votes db) \<and>
        find (\<lambda>x. ca_electionId x = e \<and> ca_candidateId x = c) (candidates db) \<noteq> None \<and>
        (\<exists>v. vt_walletAddress v = w \<and> vt_electionId v = e \<and> vt_candidateId v = c \<and>
             votes db' = votes db @ [v] \<and>
             candidates db' = candidates (recompute e (db\<lparr>votes := votes db @ [v]\<rparr>)) \<and>
             elections db' = elections (recompute e (db\<lparr>votes := votes db @ [v]\<rparr>)))) \<and>
     voters db' = voters db \<and>
     (\<exists>a. audit db' = audit db @ [a] \<and> au_status a = ''success'' \<and> au_error a = None) \<and>
     (\<exists>d. blockchain db' = blockchain db @ [\<lparr>bl_action = ''castVote'', bl_details = d, bl_blockNumber = length (blockchain db)\<rparr>])"
  unfolding recordVote_try_def
  by (auto simp: Let_def not_num_def split: sum.splits if_splits option.splits)

subsection \<open>Replies of server.js and their try blocks\<close>

lemma registerVoter_Success:
  "registerVoter db data = (Success w, db') \<Longrightarrow> registerVoter_try db data = Inr (w, db')"
  by (auto simp: registerVoter_def split: sum.splits)

lemma registerVoter_Failure:
  "registerVoter db data = (Failure e, db') \<Longrightarrow>
     registerVoter_try db data = Inl e \<and>
     db' = logAudit ''registerVoter'' (js_or (field data ''walletAddress'') (JStr ''unknown''))
             data ''error'' (Some e) db"
  by (auto simp: registerVoter_def split: sum.splits)

lemma createElection_Success:
  "createElection cfg db data = (Success i, db') \<Longrightarrow> createElection_try cfg db data = Inr (i, db')"
  by (auto simp: createElection_def split: sum.splits)

lemma createElection_Failure:
  "createElection cfg db data = (Failure e, db') \<Longrightarrow>
     createElection_try cfg db data = Inl e \<and>
     db' = logAudit ''createElection'' (js_or (field data ''adminAddress'') (JStr ''unknown''))
             data ''error'' (Some e) db"
  by (auto simp: createElection_def split: sum.splits)

lemma addCandidate_Success:
  "addCandidate db data = (Success i, db') \<Longrightarrow> addCandidate_try db data = Inr (i, db')"
  by (auto simp: addCandidate_def split: sum.splits)

lemma addCandidate_Failure:
  "addCandidate db data = (Failure e, db') \<Longrightarrow>
     addCandidate_try db data = Inl e \<and>
     db' = logAudit ''addCandidate'' (JStr ''system'') data ''error'' (Some e) db"
  by (auto simp: addCandidate_def split: sum.splits)

lemma recordVote_Success:
  "recordVote db data = (Success t, db') \<Longrightarrow> recordVote_try db data = Inr (t, db')"
  by (auto simp: recordVote_def split: sum.splits)

lemma recordVote_Failure:
  "recordVote db data = (Failure e, db') \<Longrightarrow>
     recordVote_try db data = Inl e \<and>
     db' = logAudit ''recordVote'' (js_or (field data ''walletAddress'') (JStr ''unknown''))
             data ''error'' (Some e) db"
  by (auto simp: recordVote_def split: sum.splits)

subsection \<open>Runs\<close>

text \<open>A property kept by every request holds after every sequence of requests.\<close>

lemma handleAction_state_cases:
  assumes "P db"
    and "P (initializeSystem db)"
    and "\<And>data. P (snd (registerVoter db data))"
    and "\<And>data. P (snd (createElection cfg db data))"
    and "\<And>data. P (snd (addCandidate db data))"
    and "\<And>data. P (snd (recordVote db data))"
  shows "P (handleAction_state cfg req db)"
  using assms by (simp add: handleAction_state_def Let_def)

lemma run_Nil [simp]: "run cfg [] db = db"
  by (simp add: run_def)

lemma run_Cons [simp]: "run cfg (r # rs) db = run cfg rs (handleAction_state cfg r db)"
  by (simp add: run_def)

lemma run_append: "run cfg (rs @ rs') db = run cfg rs' (run cfg rs db)"
  by (simp add: run_def)

lemma run_invariant:
  assumes "P db" and "\<And>d req. P d \<Longrightarrow> P (handleAction_state cfg req d)"
  shows "P (run cfg reqs db)"
  using assms(1)
proof (induction reqs arbitrary: db)
  case Nil
  then show ?case by simp
next
  case (Cons r rs)
  then show ?case using assms(2) by simp
qed

text \<open>The result of an operation, by cases.\<close>

lemma reply_cases:
  obtains (ok) x d where "r = (Success x, d)" | (err) e d where "r = (Failure e, d)"
  by (cases r; cases "fst r") auto

subsection \<open>The vote counts and the recomputation\<close>

lemma count_in_bump: "count_in (bump k acc) k' = count_in acc k' + (if k = k' then 1 else 0)"
  by (induction acc) (auto simp: count_in_def)

lemma sum_bump: "sum_list (map snd (bump k acc)) = Suc (sum_list (map snd acc))"
  by (induction acc) auto

lemma count_in_fold:
  "count_in (fold (\<lambda>v acc. bump (f v) acc) vs acc) k =
     count_in acc k + length (filter (\<lambda>v. f v = k) vs)"
  by (induction vs arbitrary: acc) (auto simp: count_in_bump)

lemma sum_fold:
  "sum_list (map snd (fold (\<lambda>v acc. bump (f v) acc) vs acc)) = sum_list (map snd acc) + length vs"
  by (induction vs arbitrary: acc) (auto simp: sum_bump)

lemma count_in_Nil [simp]: "count_in [] k = 0"
  by (simp add: count_in_def)

lemma count_in_voteCounts:
  "count_in (voteCounts vs e) k =
     length (filter (\<lambda>v. vt_electionId v = e \<and> vt_candidateId v = k) vs)"
proof -
  have "count_in (voteCounts vs e) k =
        count_in [] k + length (filter (\<lambda>v. vt_candidateId v = k) (filter (\<lambda>v. vt_electionId v = e) vs))"
    unfolding voteCounts_def by (rule count_in_fold)
  then show ?thesis
    by (simp add: conj_commute)
qed

lemma sum_voteCounts:
  "sum_list (map snd (voteCounts vs e)) = length (filter (\<lambda>v. vt_electionId v = e) vs)"
  by (simp add: voteCounts_def sum_fold)

lemma candidates_updateCandidateVotes:
  "candidates (updateCandidateVotes e db) = map (tallied (votes db) e) (candidates db)"
  using count_in_voteCounts [of "votes db" e]
  by (simp add: updateCandidateVotes_def Let_def tallied_def sum_voteCounts count_in_def)

lemma updateCandidateVotes_simps [simp]:
  "voters (updateCandidateVotes e db) = voters db"
  "elections (updateCandidateVotes e db) = elections db"
  "votes (updateCandidateVotes e db) = votes db"
  "audit (updateCandidateVotes e db) = audit db"
  "blockchain (updateCandidateVotes e db) = blockchain db"
  by (simp_all add: updateCandidateVotes_def Let_def)

lemma updateElectionTotalVotes_simps [simp]:
  "voters (updateElectionTotalVotes e db) = voters db"
  "candidates (updateElectionTotalVotes e db) = candidates db"
  "votes (updateElectionTotalVotes e db) = votes db"
  "audit (updateElectionTotalVotes e db) = audit db"
  "blockchain (updateElectionTotalVotes e db) = blockchain db"
  "elections (updateElectionTotalVotes e db) =
     update_first (\<lambda>x. el_electionId x = e)
       (\<lambda>x. x\<lparr>el_totalVotes := length (filter (\<lambda>v. vt_electionId v = e) (votes db))\<rparr>)
       (elections db)"
  by (simp_all add: updateElectionTotalVotes_def Let_def)

lemma candidates_recompute:
  "candidates (recompute e db) = map (tallied (votes db) e) (candidates db)"
  by (simp add: recompute_def candidates_updateCandidateVotes)

lemma elections_recompute:
  "elections (recompute e db) =
     update_first (\<lambda>x. el_electionId x = e)
       (\<lambda>x. x\<lparr>el_totalVotes := length (filter (\<lambda>v. vt_electionId v = e) (votes db))\<rparr>)
       (elections db)"
  by (simp add: recompute_def)

subsection \<open>The ledger invariant holds in every run of server.js\<close>

lemma ledger_inv_cong:
  "candidates db' = candidates db \<Longrightarrow> elections db' = elections db \<Longrightarrow> votes db' = votes db \<Longrightarrow>
     ledger_inv db' = ledger_inv db"
  by (simp add: ledger_inv_def dense_candidates_def dense_elections_def votes_refer_def
      candidates_refer_def candidate_tally_def election_tally_def candidates_of_def votes_of_def
      votes_for_def)

lemma ledger_inv_DATABASE0: "ledger_inv DATABASE0"
  by (simp add: ledger_inv_def dense_candidates_def dense_elections_def votes_refer_def
      candidates_refer_def candidate_tally_def election_tally_def candidates_of_def votes_of_def
      votes_for_def DATABASE0_def)

lemma ledger_inv_initializeSystem: "ledger_inv (initializeSystem db) = ledger_inv db"
  by (rule ledger_inv_cong) (simp_all add: initializeSystem_def)

lemma ledger_inv_logAudit: "ledger_inv (logAudit a u d s e db) = ledger_inv db"
  by (rule ledger_inv_cong) simp_all

text \<open>An identifier in use is at most the number of elections.\<close>

lemma dense_elections_bound:
  assumes "dense_elections db" and "x \<in> set (elections db)"
  shows "1 \<le> el_electionId x \<and> el_electionId x \<le> int (length (elections db))"
proof -
  have "el_electionId x \<in> set (map el_electionId (elections db))"
    using assms(2) by simp
  then have "el_electionId x \<in> set (map int [1..<Suc (length (elections db))])"
    using assms(1) unfolding dense_elections_def by simp
  then have "el_electionId x \<in> int ` {1..<Suc (length (elections db))}"
    by (simp del: upt_Suc)
  then show ?thesis by auto
qed

lemma dense_candidates_bound:
  assumes "dense_candidates db" and "c \<in> set (candidates db)"
  shows "1 \<le> ca_candidateId c \<and>
         ca_candidateId c \<le> int (length (candidates_of db (ca_electionId c)))"
proof -
  have "c \<in> set (candidates_of db (ca_electionId c))"
    using assms(2) by (simp add: candidates_of_def)
  then have "ca_candidateId c \<in> set (map ca_candidateId (candidates_of db (ca_electionId c)))"
    by simp
  then have "ca_candidateId c \<in> set (map int [1..<Suc (length (candidates_of db (ca_electionId c)))])"
    using assms(1) unfolding dense_candidates_def by simp
  then have "ca_candidateId c \<in> int ` {1..<Suc (length (candidates_of db (ca_electionId c)))}"
    by (simp del: upt_Suc)
  then show ?thesis by auto
qed

text \<open>No vote names an election or a candidate that does not exist yet.\<close>

lemma no_votes_for_new_election:
  assumes "ledger_inv db"
  shows "filter (\<lambda>v. vt_electionId v = int (length (elections db)) + 1) (votes db) = []"
proof -
  { fix v assume v: "v \<in> set (votes db)"
    from assms v obtain c where c: "c \<in> set (candidates db)" "ca_electionId c = vt_electionId v"
      by (auto simp: ledger_inv_def votes_refer_def list_all_iff list_ex_iff)
    from assms c(1) obtain x where x: "x \<in> set (elections db)" "el_electionId x = ca_electionId c"
      by (auto simp: ledger_inv_def candidates_refer_def list_all_iff list_ex_iff)
    from assms have "dense_elections db" by (simp add: ledger_inv_def)
    from dense_elections_bound [OF this x(1)] x(2) c(2)
    have "vt_electionId v \<noteq> int (length (elections db)) + 1" by simp }
  then show ?thesis by (auto simp: filter_empty_conv)
qed

lemma no_votes_for_new_candidate:
  assumes "ledger_inv db"
  shows "filter (\<lambda>v. vt_electionId v = e \<and>
                      vt_candidateId v = int (length (candidates_of db e)) + 1) (votes db) = []"
proof -
  { fix v assume v: "v \<in> set (votes db)" and e: "vt_electionId v = e"
    from assms v obtain c where c: "c \<in> set (candidates db)" "ca_electionId c = vt_electionId v"
        "ca_candidateId c = vt_candidateId v"
      by (auto simp: ledger_inv_def votes_refer_def list_all_iff list_ex_iff)
    from assms have "dense_candidates db" by (simp add: ledger_inv_def)
    from dense_candidates_bound [OF this c(1)] c(2,3) e
    have "vt_candidateId v \<noteq> int (length (candidates_of db e)) + 1" by simp }
  then show ?thesis by (auto simp: filter_empty_conv)
qed

lemma tallied_ids [simp]:
  "ca_electionId (tallied vs e c) = ca_electionId c"
  "ca_candidateId (tallied vs e c) = ca_candidateId c"
  by (simp_all add: tallied_def)

lemma filter_map_tallied:
  "filter (\<lambda>c. ca_electionId c = e') (map (tallied vs e) cs) =
     map (tallied vs e) (filter (\<lambda>c. ca_electionId c = e') cs)"
  by (induction cs) auto

lemma update_first_distinct:
  "distinct (map g xs) \<Longrightarrow>
     update_first (\<lambda>x. g x = k) f xs = map (\<lambda>x. if g x = k then f x else x) xs"
proof (induction xs)
  case Nil
  then show ?case by simp
next
  case (Cons x xs)
  show ?case
  proof (cases "g x = k")
    case True
    with Cons.prems have "\<forall>y\<in>set xs. g y \<noteq> k" by (force simp: image_iff)
    then have "map (\<lambda>x. if g x = k then f x else x) xs = xs"
      by (simp add: map_idI)
    with True show ?thesis by simp
  next
    case False
    with Cons show ?thesis by simp
  qed
qed

lemma map_update_first:
  "(\<And>x. g (f x) = g x) \<Longrightarrow> map g (update_first P f xs) = map g xs"
  by (induction xs) auto

lemma dense_elections_distinct:
  "dense_elections db \<Longrightarrow> distinct (map el_electionId (elections db))"
  unfolding dense_elections_def
  by (simp add: distinct_map del: upt_Suc)

lemma dense_candidates_distinct:
  "dense_candidates db \<Longrightarrow> distinct (map ca_candidateId (candidates_of db e))"
  unfolding dense_candidates_def
  by (simp add: distinct_map del: upt_Suc)

lemma ledger_inv_createElection:
  assumes inv: "ledger_inv db" and ok: "createElection_try cfg db data = Inr (i, db')"
  shows "ledger_inv db'"
proof -
  from createElection_try_Inr [OF ok] obtain x where
    x: "el_electionId x = int (length (elections db)) + 1" "el_totalVotes x = 0"
       "elections db' = elections db @ [x]"
    and same: "candidates db' = candidates db" "votes db' = votes db"
    by auto
  from inv have parts: "dense_candidates db" "dense_elections db" "votes_refer db"
      "candidates_refer db" "candidate_tally db" "election_tally db"
    by (simp_all add: ledger_inv_def)
  have 1: "dense_candidates db'"
    using parts(1) same by (simp add: dense_candidates_def candidates_of_def)
  have 2: "dense_elections db'"
    using parts(2) x by (simp add: dense_elections_def)
  have 3: "votes_refer db'"
    using parts(3) same by (simp add: votes_refer_def)
  have 4: "candidates_refer db'"
    using parts(4) same x(3) by (auto simp: candidates_refer_def list_all_iff list_ex_iff)
  have 5: "candidate_tally db'"
    using parts(5) same by (simp add: candidate_tally_def votes_for_def)
  have 6: "election_tally db'"
    using parts(6) same x no_votes_for_new_election [OF inv]
    by (simp add: election_tally_def votes_of_def)
  from 1 2 3 4 5 6 show ?thesis by (simp add: ledger_inv_def)
qed

lemma ledger_inv_addCandidate:
  assumes inv: "ledger_inv db" and ok: "addCandidate_try db data = Inr (i, db')"
  shows "ledger_inv db'"
proof -
  from addCandidate_try_Inr [OF ok] obtain e c where
    e: "find (\<lambda>x. el_electionId x = e) (elections db) \<noteq> None"
    and c: "ca_electionId c = e"
       "ca_candidateId c = int (length (filter (\<lambda>c. ca_electionId c = e) (candidates db))) + 1"
       "ca_votes c = 0" "candidates db' = candidates db @ [c]"
    and same: "elections db' = elections db" "votes db' = votes db"
    by auto
  from inv have parts: "dense_candidates db" "dense_elections db" "votes_refer db"
      "candidates_refer db" "candidate_tally db" "election_tally db"
    by (simp_all add: ledger_inv_def)
  have 1: "dense_candidates db'"
    using parts(1) c by (simp add: dense_candidates_def candidates_of_def)
  have 2: "dense_elections db'"
    using parts(2) same by (simp add: dense_elections_def)
  have 3: "votes_refer db'"
    using parts(3) same c(4) by (auto simp: votes_refer_def list_all_iff list_ex_iff)
  from e obtain x where "x \<in> set (elections db)" "el_electionId x = e"
    by (auto simp: find_None_iff)
  then have 4: "candidates_refer db'"
    using parts(4) same c(1,4) by (auto simp: candidates_refer_def list_all_iff list_ex_iff)
  have 5: "candidate_tally db'"
    using parts(5) same c no_votes_for_new_candidate [OF inv, of e]
    by (simp add: candidate_tally_def votes_for_def candidates_of_def)
  have 6: "election_tally db'"
    using parts(6) same by (simp add: election_tally_def votes_of_def)
  from 1 2 3 4 5 6 show ?thesis by (simp add: ledger_inv_def)
qed

lemma list_ex_eq_map: "list_ex (\<lambda>x. f x = a) xs \<longleftrightarrow> a \<in> set (map f xs)"
  by (auto simp: list_ex_iff)

lemma list_ex_tallied:
  "list_ex (\<lambda>c. ca_electionId c = a \<and> ca_candidateId c = b) (map (tallied vs e) cs) =
     list_ex (\<lambda>c. ca_electionId c = a \<and> ca_candidateId c = b) cs"
  by (induction cs) auto

lemma ledger_inv_recordVote:
  assumes inv: "ledger_inv db" and ok: "recordVote_try db data = Inr (t, db')"
  shows "ledger_inv db'"
proof -
  from recordVote_try_Inr [OF ok] obtain e k v where
    found: "find (\<lambda>x. ca_electionId x = e \<and> ca_candidateId x = k) (candidates db) \<noteq> None"
    and v: "vt_electionId v = e" "vt_candidateId v = k"
    and vs: "votes db' = votes db @ [v]"
    and cs: "candidates db' = candidates (recompute e (db\<lparr>votes := votes db @ [v]\<rparr>))"
    and es: "elections db' = elections (recompute e (db\<lparr>votes := votes db @ [v]\<rparr>))"
    by auto
  from inv have parts: "dense_candidates db" "dense_elections db" "votes_refer db"
      "candidates_refer db" "candidate_tally db" "election_tally db"
    by (simp_all add: ledger_inv_def)
  have cs': "candidates db' = map (tallied (votes db') e) (candidates db)"
    using cs vs by (simp add: candidates_recompute)
  have es': "elections db' =
      map (\<lambda>x. if el_electionId x = e
                then x\<lparr>el_totalVotes := length (filter (\<lambda>v. vt_electionId v = e) (votes db'))\<rparr>
                else x) (elections db)"
    using es vs update_first_distinct [OF dense_elections_distinct [OF parts(2)]]
    by (simp add: elections_recompute)
  have ids: "map el_electionId (elections db') = map el_electionId (elections db)"
    unfolding es' by (simp add: comp_def cong: map_cong)
  have 1: "dense_candidates db'"
    using parts(1) by (simp add: dense_candidates_def candidates_of_def cs' filter_map_tallied comp_def)
  have len: "length (elections db') = length (elections db)"
    unfolding es' by simp
  have 2: "dense_elections db'"
    using parts(2) ids len by (simp add: dense_elections_def del: upt_Suc)
  from found obtain c where c: "c \<in> set (candidates db)" "ca_electionId c = e" "ca_candidateId c = k"
    by (auto simp: find_None_iff)
  have 3: "votes_refer db'"
  proof -
    have old: "list_all (\<lambda>v. list_ex (\<lambda>c. ca_electionId c = vt_electionId v \<and>
                 ca_candidateId c = vt_candidateId v) (candidates db)) (votes db)"
      using parts(3) by (simp add: votes_refer_def)
    have new: "list_ex (\<lambda>c. ca_electionId c = vt_electionId v \<and>
                 ca_candidateId c = vt_candidateId v) (candidates db)"
      unfolding list_ex_iff using c v by (intro bexI [of _ c]) simp_all
    show ?thesis
      unfolding votes_refer_def cs' list_ex_tallied vs using old new by simp
  qed
  have 4: "candidates_refer db'"
  proof -
    have "list_ex (\<lambda>x. el_electionId x = a) (elections db') =
          list_ex (\<lambda>x. el_electionId x = a) (elections db)" for a
      using arg_cong [OF ids, of set] by (simp add: list_ex_eq_map)
    then show ?thesis
      using parts(4) by (simp add: candidates_refer_def cs' list_all_iff)
  qed
  have 5: "candidate_tally db'"
    unfolding candidate_tally_def list_all_iff cs' votes_for_def
  proof
    fix c' assume "c' \<in> set (map (tallied (votes db') e) (candidates db))"
    then obtain c0 where c0: "c0 \<in> set (candidates db)" "c' = tallied (votes db') e c0"
      by auto
    show "ca_votes c' = length (filter (\<lambda>v. vt_electionId v = ca_electionId c' \<and>
            vt_candidateId v = ca_candidateId c') (votes db'))"
    proof (cases "ca_electionId c0 = e")
      case True
      then show ?thesis by (simp add: c0(2) tallied_def)
    next
      case False
      from parts(5) c0(1) have "ca_votes c0 = length (filter (\<lambda>v. vt_electionId v = ca_electionId c0 \<and>
            vt_candidateId v = ca_candidateId c0) (votes db))"
        by (simp add: candidate_tally_def list_all_iff votes_for_def)
      with False v(1) show ?thesis by (simp add: c0(2) tallied_def vs)
    qed
  qed
  have 6: "election_tally db'"
    unfolding election_tally_def list_all_iff votes_of_def
  proof
    fix x' assume "x' \<in> set (elections db')"
    then obtain x where x: "x \<in> set (elections db)"
        "x' = (if el_electionId x = e
               then x\<lparr>el_totalVotes := length (filter (\<lambda>v. vt_electionId v = e) (votes db'))\<rparr>
               else x)"
      unfolding es' by auto
    show "el_totalVotes x' = length (filter (\<lambda>v. vt_electionId v = el_electionId x') (votes db'))"
    proof (cases "el_electionId x = e")
      case True
      then show ?thesis by (simp add: x(2))
    next
      case False
      from parts(6) x(1) have "el_totalVotes x = length (filter (\<lambda>v. vt_electionId v = el_electionId x) (votes db))"
        by (simp add: election_tally_def list_all_iff votes_of_def)
      with False v(1) show ?thesis by (simp add: x(2) vs)
    qed
  qed
  from 1 2 3 4 5 6 show ?thesis by (simp add: ledger_inv_def)
qed

lemma ledger_inv_step:
  assumes "ledger_inv db"
  shows "ledger_inv (handleAction_state cfg req db)"
proof (rule handleAction_state_cases)
  show "ledger_inv db" by fact
  show "ledger_inv (initializeSystem db)"
    using assms by (simp add: ledger_inv_initializeSystem)
next
  fix data
  show "ledger_inv (snd (registerVoter db data))"
  proof (cases "registerVoter db data" rule: reply_cases)
    case (ok x d)
    from registerVoter_try_Inr [OF registerVoter_Success [OF ok]]
    have "ledger_inv d = ledger_inv db" by (intro ledger_inv_cong) auto
    with assms ok show ?thesis by simp
  next
    case (err e d)
    with registerVoter_Failure [OF err] assms show ?thesis
      by (simp add: ledger_inv_logAudit)
  qed
next
  fix data
  show "ledger_inv (snd (createElection cfg db data))"
  proof (cases "createElection cfg db data" rule: reply_cases)
    case (ok x d)
    with ledger_inv_createElection [OF assms createElection_Success [OF ok]] show ?thesis by simp
  next
    case (err e d)
    with createElection_Failure [OF err] assms show ?thesis
      by (simp add: ledger_inv_logAudit)
  qed
next
  fix data
  show "ledger_inv (snd (addCandidate db data))"
  proof (cases "addCandidate db data" rule: reply_cases)
    case (ok x d)
    with ledger_inv_addCandidate [OF assms addCandidate_Success [OF ok]] show ?thesis by simp
  next
    case (err e d)
    with addCandidate_Failure [OF err] assms show ?thesis
      by (simp add: ledger_inv_logAudit)
  qed
next
  fix data
  show "ledger_inv (snd (recordVote db data))"
  proof (cases "recordVote db data" rule: reply_cases)
    case (ok x d)
    with ledger_inv_recordVote [OF assms recordVote_Success [OF ok]] show ?thesis by simp
  next
    case (err e d)
    with recordVote_Failure [OF err] assms show ?thesis
      by (simp add: ledger_inv_logAudit)
  qed
qed

lemma ledger_inv_run: "ledger_inv db \<Longrightarrow> ledger_inv (run cfg reqs db)"
  by (rule run_invariant) (auto intro: ledger_inv_step)

lemma ledger_inv_reachable: "ledger_inv (run cfg reqs DATABASE0)"
  by (rule ledger_inv_run) (rule ledger_inv_DATABASE0)

subsection \<open>The recomputation again\<close>

lemma tallied_idem: "tallied vs e (tallied vs e c) = tallied vs e c"
  by (simp add: tallied_def)

lemma update_first_idem:
  "(\<And>x. P x \<Longrightarrow> P (f x) \<and> f (f x) = f x) \<Longrightarrow>
     update_first P f (update_first P f xs) = update_first P f xs"
  by (induction xs) auto

lemma recompute_idem: "recompute e (recompute e db) = recompute e db"
proof (rule database.equality)
  show "candidates (recompute e (recompute e db)) = candidates (recompute e db)"
    by (simp add: candidates_recompute tallied_idem)
  show "elections (recompute e (recompute e db)) = elections (recompute e db)"
    by (simp add: elections_recompute update_first_idem)
qed (simp_all add: recompute_def updateElectionTotalVotes_def updateCandidateVotes_def Let_def)

lemma tallied_overwrites:
  "ca_electionId c = e \<Longrightarrow>
     tallied vs e (c\<lparr>ca_votes := n, ca_percentage := p\<rparr>) = tallied vs e c"
  by (simp add: tallied_def)

lemma find_update_first:
  "(\<And>x. P x \<Longrightarrow> P (f x)) \<Longrightarrow> find P (update_first P f xs) = map_option f (find P xs)"
  by (induction xs) auto

lemma find_map_preserving:
  "(\<And>x. P (g x) = P x) \<Longrightarrow> find P (map g xs) = map_option g (find P xs)"
  by (induction xs) auto

lemma recompute_cold_candidates:
  "candidates_of (recompute e (with_caches f g h db)) e = candidates_of (recompute e db) e"
proof -
  have "filter (\<lambda>c. ca_electionId c = e)
          (map (tallied (votes db) e) (map (\<lambda>c. c\<lparr>ca_votes := f c, ca_percentage := g c\<rparr>) cs)) =
        filter (\<lambda>c. ca_electionId c = e) (map (tallied (votes db) e) cs)" for cs
    by (induction cs) (auto simp: tallied_overwrites)
  then show ?thesis
    by (simp add: candidates_of_def candidates_recompute with_caches_def)
qed

lemma recompute_cold_election:
  "find (\<lambda>x. el_electionId x = e) (elections (recompute e (with_caches f g h db))) =
   find (\<lambda>x. el_electionId x = e) (elections (recompute e db))"
  by (simp add: elections_recompute with_caches_def find_update_first find_map_preserving
      option.map_comp comp_def)

subsection \<open>What never shrinks\<close>

lemma voters_step: "\<exists>more. voters (handleAction_state cfg req db) = voters db @ more"
proof (rule handleAction_state_cases)
  show "\<exists>more. voters db = voters db @ more" by simp
  show "\<exists>more. voters (initializeSystem db) = voters db @ more"
    by (simp add: initializeSystem_def)
next
  fix data
  show "\<exists>more. voters (snd (registerVoter db data)) = voters db @ more"
  proof (cases "registerVoter db data" rule: reply_cases)
    case (ok x d)
    from registerVoter_try_Inr [OF registerVoter_Success [OF ok]] ok show ?thesis by auto
  next
    case (err e d)
    with registerVoter_Failure [OF err] show ?thesis by simp
  qed
next
  fix data
  show "\<exists>more. voters (snd (createElection cfg db data)) = voters db @ more"
  proof (cases "createElection cfg db data" rule: reply_cases)
    case (ok x d)
    from createElection_try_Inr [OF createElection_Success [OF ok]] ok show ?thesis by auto
  next
    case (err e d)
    with createElection_Failure [OF err] show ?thesis by simp
  qed
next
  fix data
  show "\<exists>more. voters (snd (addCandidate db data)) = voters db @ more"
  proof (cases "addCandidate db data" rule: reply_cases)
    case (ok x d)
    from addCandidate_try_Inr [OF addCandidate_Success [OF ok]] ok show ?thesis by auto
  next
    case (err e d)
    with addCandidate_Failure [OF err] show ?thesis by simp
  qed
next
  fix data
  show "\<exists>more. voters (snd (recordVote db data)) = voters db @ more"
  proof (cases "recordVote db data" rule: reply_cases)
    case (ok x d)
    from recordVote_try_Inr [OF recordVote_Success [OF ok]] ok show ?thesis by auto
  next
    case (err e d)
    with recordVote_Failure [OF err] show ?thesis by simp
  qed
qed

lemma voters_run: "\<exists>more. voters (run cfg reqs db) = voters db @ more"
proof (induction reqs arbitrary: db)
  case Nil
  then show ?case by simp
next
  case (Cons r rs)
  from voters_step obtain m1 where "voters (handleAction_state cfg r db) = voters db @ m1" by blast
  moreover from Cons obtain m2 where
    "voters (run cfg rs (handleAction_state cfg r db)) = voters (handleAction_state cfg r db) @ m2"
    by blast
  ultimately show ?case by simp
qed

lemma votes_step: "\<exists>more. votes (handleAction_state cfg req db) = votes db @ more"
proof (rule handleAction_state_cases)
  show "\<exists>more. votes db = votes db @ more" by simp
  show "\<exists>more. votes (initializeSystem db) = votes db @ more"
    by (simp add: initializeSystem_def)
next
  fix data
  show "\<exists>more. votes (snd (registerVoter db data)) = votes db @ more"
  proof (cases "registerVoter db data" rule: reply_cases)
    case (ok x d)
    from registerVoter_try_Inr [OF registerVoter_Success [OF ok]] ok show ?thesis by auto
  next
    case (err e d)
    with registerVoter_Failure [OF err] show ?thesis by simp
  qed
next
  fix data
  show "\<exists>more. votes (snd (createElection cfg db data)) = votes db @ more"
  proof (cases "createElection cfg db data" rule: reply_cases)
    case (ok x d)
    from createElection_try_Inr [OF createElection_Success [OF ok]] ok show ?thesis by auto
  next
    case (err e d)
    with createElection_Failure [OF err] show ?thesis by simp
  qed
next
  fix data
  show "\<exists>more. votes (snd (addCandidate db data)) = votes db @ more"
  proof (cases "addCandidate db data" rule: reply_cases)
    case (ok x d)
    from addCandidate_try_Inr [OF addCandidate_Success [OF ok]] ok show ?thesis by auto
  next
    case (err e d)
    with addCandidate_Failure [OF err] show ?thesis by simp
  qed
next
  fix data
  show "\<exists>more. votes (snd (recordVote db data)) = votes db @ more"
  proof (cases "recordVote db data" rule: reply_cases)
    case (ok x d)
    from recordVote_try_Inr [OF recordVote_Success [OF ok]] ok show ?thesis by auto
  next
    case (err e d)
    with recordVote_Failure [OF err] show ?thesis by simp
  qed
qed

lemma votes_run: "\<exists>more. votes (run cfg reqs db) = votes db @ more"
proof (induction reqs arbitrary: db)
  case Nil
  then show ?case by simp
next
  case (Cons r rs)
  from votes_step obtain m1 where "votes (handleAction_state cfg r db) = votes db @ m1" by blast
  moreover from Cons obtain m2 where
    "votes (run cfg rs (handleAction_state cfg r db)) = votes (handleAction_state cfg r db) @ m2"
    by blast
  ultimately show ?case by simp
qed

subsection \<open>Registering a wallet that is on file\<close>

lemma string_or_absent_trim:
  "string_or_absent v \<Longrightarrow> \<exists>s. js_trim (js_or v (JStr [])) = Inr s"
  by (cases v) (auto simp: string_or_absent_def js_or_def)

lemma js_or_JStr [simp]: "s \<noteq> [] \<Longrightarrow> js_or (JStr s) b = JStr s"
  by (simp add: js_or_def)

lemma trim_Nil [simp]: "trim [] = []"
  by (simp add: trim_def)

lemma toLowerCase_Nil [simp]: "toLowerCase [] = []"
  by (simp add: toLowerCase_def)

lemma toLowerCase_eq_Nil [simp]: "toLowerCase s = [] \<longleftrightarrow> s = []"
  by (simp add: toLowerCase_def)

lemma registerVoter_on_file:
  assumes stored: "list_ex (\<lambda>v. toLowerCase (vo_walletAddress v) = w) (voters db)"
    and wallet: "field data ''walletAddress'' = JStr w2" "trim (toLowerCase w2) = w" "w \<noteq> []"
  shows "voters (snd (registerVoter db data)) = voters db"
    and "\<exists>e. fst (registerVoter db data) = Failure e"
proof -
  from wallet have w2: "w2 \<noteq> []" by auto
  have "\<exists>e. registerVoter_try db data = Inl e"
    using stored wallet w2 unfolding registerVoter_try_def
    by (auto split: sum.splits)
  then obtain e where "registerVoter_try db data = Inl e" ..
  then have r: "registerVoter db data = (Failure e,
      logAudit ''registerVoter'' (js_or (field data ''walletAddress'') (JStr ''unknown''))
             data ''error'' (Some e) db)"
    by (simp add: registerVoter_def)
  show "voters (snd (registerVoter db data)) = voters db" by (simp add: r)
  show "\<exists>e. fst (registerVoter db data) = Failure e" by (simp add: r)
qed

lemma registerVoter_duplicate:
  assumes stored: "list_ex (\<lambda>v. toLowerCase (vo_walletAddress v) = w) (voters db)"
    and wallet: "field data ''walletAddress'' = JStr w2" "trim (toLowerCase w2) = w" "wallet_shape w"
    and name: "field data ''name'' = JStr n" "trim n \<noteq> []"
    and idn: "field data ''idNumber'' = JStr i" "trim i \<noteq> []"
    and email: "string_or_absent (field data ''email'')"
  shows "fst (registerVoter db data) = Failure DuplicateVoter"
proof -
  from wallet have w: "w \<noteq> []" "w2 \<noteq> []" by (auto simp: wallet_shape_def)
  from name idn have ne: "n \<noteq> []" "i \<noteq> []" by auto
  from string_or_absent_trim [OF email] obtain em where
    em: "js_trim (js_or (field data ''email'') (JStr [])) = Inr em" ..
  have "registerVoter_try db data = Inl DuplicateVoter"
    using stored wallet w name idn ne em unfolding registerVoter_try_def
    by simp
  then show ?thesis by (simp add: registerVoter_def)
qed

subsection \<open>backend.js: the voters on file\<close>

lemma b_registerVoter_voters:
  "\<exists>more. b_voters (snd (b_registerVoter db body)) = b_voters db @ more"
  by (simp add: b_registerVoter_def Let_def)

lemma b_voters_handle: "\<exists>more. b_voters (b_handle req db) = b_voters db @ more"
  using b_registerVoter_voters [of db "snd req"]
  by (simp add: b_handle_def Let_def b_createElection_def b_addCandidate_def b_castVote_def)

lemma b_run_Nil [simp]: "b_run [] db = db"
  by (simp add: b_run_def)

lemma b_run_Cons [simp]: "b_run (r # rs) db = b_run rs (b_handle r db)"
  by (simp add: b_run_def)

lemma b_voters_run: "\<exists>more. b_voters (b_run reqs db) = b_voters db @ more"
proof (induction reqs arbitrary: db)
  case Nil
  then show ?case by simp
next
  case (Cons r rs)
  from b_voters_handle obtain m1 where "b_voters (b_handle r db) = b_voters db @ m1" by blast
  moreover from Cons obtain m2 where
    "b_voters (b_run rs (b_handle r db)) = b_voters (b_handle r db) @ m2" by blast
  ultimately show ?case by simp
qed

lemma b_registerVoter_Success:
  assumes "b_registerVoter db body = (Success v, db')"
  shows "truthy (field body ''walletAddress'') \<and> bv_Wallet v = field body ''walletAddress'' \<and>
         b_voters db' = b_voters db @ [v]"
  using assms by (auto simp: b_registerVoter_def Let_def split: if_splits)

lemma b_registerVoter_duplicate:
  assumes stored: "v \<in> set (b_voters db)" "truthy (bv_Wallet v)"
      "toLowerCase (String (bv_Wallet v)) = toLowerCase (String (field body ''walletAddress''))"
    and complete: "truthy (field body ''walletAddress'')" "truthy (field body ''name'')"
      "truthy (field body ''idNumber'')"
  shows "b_registerVoter db body = (Failure B_WalletRegistered, db)"
proof -
  have "list_ex (\<lambda>v. toLowerCase (String (js_or (bv_Wallet v) (JStr []))) =
          toLowerCase (String (field body ''walletAddress''))) (b_voters db)"
    unfolding list_ex_iff using stored by (intro bexI [of _ v]) (simp_all add: js_or_def)
  with complete show ?thesis
    by (simp add: b_registerVoter_def Let_def)
qed


section \<open>The ledger of server.js: one vote, referential integrity, tally\<close>

lemma recordVote_votes_Failure:
  "fst (recordVote db data) = Failure e \<Longrightarrow> votes (snd (recordVote db data)) = votes db"
  by (auto simp: recordVote_def split: sum.splits)

lemma recordVote_already_voted:
  assumes stored: "list_ex (\<lambda>v. toLowerCase (vt_walletAddress v) = w \<and> vt_electionId v = e) (votes db)"
    and wallet: "field data ''walletAddress'' = JStr w2" "trim (toLowerCase w2) = w" "w \<noteq> []"
    and election: "parseInt (field data ''electionId'') = Some e" "e \<noteq> 0"
    and candidate: "parseInt (field data ''candidateId'') = Some c" "c \<noteq> 0"
  shows "fst (recordVote db data) = Failure AlreadyVoted \<and>
         votes (snd (recordVote db data)) = votes db"
proof -
  from wallet have w2: "w2 \<noteq> []" by auto
  have "recordVote_try db data = Inl AlreadyVoted"
    using stored wallet w2 election candidate unfolding recordVote_try_def
    by (simp add: Let_def not_num_def)
  then show ?thesis by (simp add: recordVote_def)
qed

text \<open>
  In \<^verbatim>\<open>server.js\<close> a wallet votes at most once in an election: once a cast has succeeded,
  every later cast of the same wallet (up to case and surrounding blanks) in the same
  election is refused as \<open>AlreadyVoted\<close> and leaves the ledger as it is.
\<close>

lemma server_one_vote:
  assumes first: "recordVote db data1 = (Success t, db1)"
    and later: "db2 = run cfg reqs db1"
    and same: "js_lower_trim (js_or (js_or (js_or (field data1 ''walletAddress'')
                 (field data1 ''voter'')) (field data1 ''from'')) (JStr [])) = Inr w"
      "parseInt (field data1 ''electionId'') = Some e"
    and wallet: "field data2 ''walletAddress'' = JStr w2" "trim (toLowerCase w2) = w"
    and election: "parseInt (field data2 ''electionId'') = Some e"
    and candidate: "parseInt (field data2 ''candidateId'') = Some c" "c \<noteq> 0"
  shows "fst (recordVote db2 data2) = Failure AlreadyVoted \<and>
         votes (snd (recordVote db2 data2)) = votes db2"
proof -
  from recordVote_try_Inr [OF recordVote_Success [OF first]] same obtain v where
    v: "vt_walletAddress v = w" "vt_electionId v = e" "votes db1 = votes db @ [v]"
    and ne: "w \<noteq> []" "e \<noteq> 0"
    by auto
  from votes_run [of cfg reqs db1] later v(3) obtain more where
    "votes db2 = votes db @ [v] @ more" by auto
  then have "v \<in> set (votes db2)" by simp
  moreover have "toLowerCase (vt_walletAddress v) = w"
    using js_lower_trim_lower [OF same(1)] v(1) by simp
  ultimately have "list_ex (\<lambda>v. toLowerCase (vt_walletAddress v) = w \<and> vt_electionId v = e) (votes db2)"
    using v(2) by (auto simp: list_ex_iff)
  then show ?thesis
    by (rule recordVote_already_voted [OF _ wallet ne(1) election ne(2) candidate])
qed

text \<open>
  In \<^verbatim>\<open>server.js\<close> a cast that names no candidate of the election fails and appends no
  vote; in a state reached from the empty database an election that does not exist has
  no candidate.
\<close>

lemma recordVote_unknown_candidate:
  assumes "\<not> list_ex (\<lambda>x. ca_electionId x = e \<and> ca_candidateId x = c) (candidates db)"
    and "parseInt (field data ''electionId'') = Some e"
    and "parseInt (field data ''candidateId'') = Some c"
  shows "(\<exists>err. fst (recordVote db data) = Failure err) \<and>
         votes (snd (recordVote db data)) = votes db"
proof -
  from assms(1) have "find (\<lambda>x. ca_electionId x = e \<and> ca_candidateId x = c) (candidates db) = None"
    by (auto simp: find_None_iff list_ex_iff)
  then have "\<exists>err. recordVote_try db data = Inl err"
    using assms(2,3) unfolding recordVote_try_def
    by (auto simp: Let_def split: sum.splits)
  then show ?thesis by (auto simp: recordVote_def)
qed

lemma server_unknown_election:
  assumes "\<not> list_ex (\<lambda>x. el_electionId x = e) (elections (run cfg reqs DATABASE0))"
  shows "\<not> list_ex (\<lambda>x. ca_electionId x = e \<and> ca_candidateId x = c)
            (candidates (run cfg reqs DATABASE0))"
  using ledger_inv_reachable [of cfg reqs] assms
  by (auto simp: ledger_inv_def candidates_refer_def list_all_iff list_ex_iff)

text \<open>The tally of \<^verbatim>\<open>server.js\<close> agrees with the ledger in every reachable state.\<close>

lemma sum_indicator:
  "distinct ks \<Longrightarrow> a \<in> set ks \<Longrightarrow> sum_list (map (\<lambda>k. if a = k then 1 else 0) ks) = (1::nat)"
  by (induction ks) auto

lemma sum_counts:
  assumes "distinct ks" and "\<forall>v\<in>set vs. f v \<in> set ks"
  shows "sum_list (map (\<lambda>k. length (filter (\<lambda>v. f v = k) vs)) ks) = length vs"
  using assms(2)
proof (induction vs)
  case Nil
  then show ?case by simp
next
  case (Cons v vs)
  have "sum_list (map (\<lambda>k. length (filter (\<lambda>v. f v = k) (v # vs))) ks) =
        sum_list (map (\<lambda>k. (if f v = k then 1 else 0) + length (filter (\<lambda>v. f v = k) vs)) ks)"
    by (rule arg_cong [where f = sum_list]) (rule map_cong, auto)
  also have "\<dots> = sum_list (map (\<lambda>k. if f v = k then 1 else 0) ks) +
                   sum_list (map (\<lambda>k. length (filter (\<lambda>v. f v = k) vs)) ks)"
    by (simp add: sum_list_addf)
  also have "\<dots> = 1 + length vs"
    using Cons sum_indicator [OF assms(1), of "f v"] by simp
  finally show ?case by simp
qed

lemma ledger_inv_tally:
  assumes "ledger_inv db"
  shows "tally_consistent db"
proof -
  from assms have parts: "dense_candidates db" "votes_refer db" "candidate_tally db"
      "election_tally db"
    by (simp_all add: ledger_inv_def)
  have total: "sum_list (map ca_votes (candidates_of db e)) = length (votes_of db e)" for e
  proof -
    have d: "distinct (map ca_candidateId (candidates_of db e))"
      by (rule dense_candidates_distinct [OF parts(1)])
    have r: "\<forall>v\<in>set (votes_of db e). vt_candidateId v \<in> set (map ca_candidateId (candidates_of db e))"
      using parts(2) by (force simp: votes_refer_def list_all_iff list_ex_iff votes_of_def
          candidates_of_def)
    have "map ca_votes (candidates_of db e) =
          map (\<lambda>c. length (filter (\<lambda>v. vt_candidateId v = ca_candidateId c) (votes_of db e)))
            (candidates_of db e)"
      using parts(3)
      by (auto simp: candidate_tally_def list_all_iff candidates_of_def votes_for_def votes_of_def
          conj_commute)
    also have "\<dots> = map (\<lambda>k. length (filter (\<lambda>v. vt_candidateId v = k) (votes_of db e)))
                       (map ca_candidateId (candidates_of db e))"
      by simp
    finally have m: "map ca_votes (candidates_of db e) =
        map (\<lambda>k. length (filter (\<lambda>v. vt_candidateId v = k) (votes_of db e)))
          (map ca_candidateId (candidates_of db e))" .
    have "sum_list (map ca_votes (candidates_of db e)) =
          sum_list (map (\<lambda>k. length (filter (\<lambda>v. vt_candidateId v = k) (votes_of db e)))
            (map ca_candidateId (candidates_of db e)))"
      by (simp only: m)
    also have "\<dots> = length (votes_of db e)"
      by (rule sum_counts [OF d r])
    finally show ?thesis .
  qed
  show ?thesis
    using parts(3,4) total
    by (simp add: tally_consistent_def candidate_tally_def election_tally_def list_all_iff)
qed

lemma server_tally_consistent: "tally_consistent (run cfg reqs DATABASE0)"
  by (rule ledger_inv_tally [OF ledger_inv_reachable])

section \<open>C1: one vote per wallet and election\<close>

text \<open>
  Claim C1. At most one cast succeeds for a wallet and an election; a further cast with
  the same pair is refused as already voted and appends no vote. \<^verbatim>\<open>server.js\<close> keeps this
  (\<open>server_one_vote\<close>). The \<^verbatim>\<open>castVote\<close> branch of \<^verbatim>\<open>backend.js\<close> does not: it stores
  \<^verbatim>\<open>Number(electionId)\<close> in the vote and later compares \<^verbatim>\<open>String\<close> of that number with
  \<^verbatim>\<open>String\<close> of the incoming \<^verbatim>\<open>electionId\<close>, so an election id sent as the text \<^verbatim>\<open>01\<close> is
  stored as 1 and never matches itself. The same request sent twice is accepted twice,
  and the ledger then holds two votes of one wallet in election 1.
\<close>

theorem C1_backend_double_vote:
  "fst (b_castVote b_two_elections
          [(''walletAddress'', JStr ''0xabc''), (''electionId'', JStr ''01''),
           (''candidateId'', JNum 1)]) =
     Success \<lparr>bt_VoteID = 1, bt_Wallet = JStr ''0xabc'', bt_ElectionID = JNum 1,
              bt_CandidateID = JNum 1\<rparr> \<and>
   fst (b_castVote
          (snd (b_castVote b_two_elections
                  [(''walletAddress'', JStr ''0xabc''), (''electionId'', JStr ''01''),
                   (''candidateId'', JNum 1)]))
          [(''walletAddress'', JStr ''0xabc''), (''electionId'', JStr ''01''),
           (''candidateId'', JNum 1)]) =
     Success \<lparr>bt_VoteID = 2, bt_Wallet = JStr ''0xabc'', bt_ElectionID = JNum 1,
              bt_CandidateID = JNum 1\<rparr> \<and>
   b_votes (snd (b_castVote
          (snd (b_castVote b_two_elections
                  [(''walletAddress'', JStr ''0xabc''), (''electionId'', JStr ''01''),
                   (''candidateId'', JNum 1)]))
          [(''walletAddress'', JStr ''0xabc''), (''electionId'', JStr ''01''),
           (''candidateId'', JNum 1)])) =
     [\<lparr>bt_VoteID = 1, bt_Wallet = JStr ''0xabc'', bt_ElectionID = JNum 1, bt_CandidateID = JNum 1\<rparr>,
      \<lparr>bt_VoteID = 2, bt_Wallet = JStr ''0xabc'', bt_ElectionID = JNum 1, bt_CandidateID = JNum 1\<rparr>]"
  by code_simp

section \<open>C2: the tally agrees with the ledger\<close>

text \<open>
  Claim C2. After any successful casts, for every election the votes of its candidates
  add up to its \<^verbatim>\<open>totalVotes\<close>, which is the number of its votes in the ledger.
  \<^verbatim>\<open>server.js\<close> recomputes both caches from the ledger after every vote and keeps this in
  every state it reaches (\<open>server_tally_consistent\<close>). \<^verbatim>\<open>backend.js\<close> increments the counters
  of whatever candidate and election it finds, after it has already stored the vote: a
  cast in election 1 for candidate 7, which does not exist, succeeds, raises the total of
  election 1 to 1 and counts for no candidate.
\<close>

theorem C2_backend_tally_drift:
  "b_tally_consistent b_two_elections \<and>
   fst (b_castVote b_two_elections
          [(''walletAddress'', JStr ''0xabc''), (''electionId'', JNum 1),
           (''candidateId'', JNum 7)]) =
     Success \<lparr>bt_VoteID = 1, bt_Wallet = JStr ''0xabc'', bt_ElectionID = JNum 1,
              bt_CandidateID = JNum 7\<rparr> \<and>
   map be_TotalVotes (b_elections (snd (b_castVote b_two_elections
          [(''walletAddress'', JStr ''0xabc''), (''electionId'', JNum 1),
           (''candidateId'', JNum 7)]))) = [1, 0] \<and>
   map bc_Votes (b_candidates (snd (b_castVote b_two_elections
          [(''walletAddress'', JStr ''0xabc''), (''electionId'', JNum 1),
           (''candidateId'', JNum 7)]))) = [0] \<and>
   \<not> b_tally_consistent (snd (b_castVote b_two_elections
          [(''walletAddress'', JStr ''0xabc''), (''electionId'', JNum 1),
           (''candidateId'', JNum 7)]))"
  by code_simp

section \<open>C3: a vote names an election and one of its candidates\<close>

text \<open>
  Claim C3. A cast whose election does not exist, or whose candidate is not one of that
  election, fails and appends no vote. \<^verbatim>\<open>server.js\<close> looks the candidate up under the
  election before it appends (\<open>recordVote_unknown_candidate\<close>, \<open>server_unknown_election\<close>).
  The \<^verbatim>\<open>castVote\<close> branch of \<^verbatim>\<open>backend.js\<close> looks nothing up before it appends: with
  elections 1 and 2 on file, a cast in election 99 succeeds, and so does a cast in
  election 2 for candidate 1, who stands in election 1.
\<close>

theorem C3_backend_dangling_vote:
  "map be_ElectionID (b_elections b_two_elections) = [1, 2] \<and>
   map (\<lambda>c. (bc_ElectionID c, bc_CandidateID c)) (b_candidates b_two_elections) = [(JNum 1, 1)] \<and>
   fst (b_castVote b_two_elections
          [(''walletAddress'', JStr ''0xabc''), (''electionId'', JNum 99),
           (''candidateId'', JNum 1)]) =
     Success \<lparr>bt_VoteID = 1, bt_Wallet = JStr ''0xabc'', bt_ElectionID = JNum 99,
              bt_CandidateID = JNum 1\<rparr> \<and>
   b_votes (snd (b_castVote b_two_elections
          [(''walletAddress'', JStr ''0xabc''), (''electionId'', JNum 99),
           (''candidateId'', JNum 1)])) =
     [\<lparr>bt_VoteID = 1, bt_Wallet = JStr ''0xabc'', bt_ElectionID = JNum 99,
       bt_CandidateID = JNum 1\<rparr>] \<and>
   b_votes (snd (b_castVote b_two_elections
          [(''walletAddress'', JStr ''0xabc''), (''electionId'', JNum 2),
           (''candidateId'', JNum 1)])) =
     [\<lparr>bt_VoteID = 1, bt_Wallet = JStr ''0xabc'', bt_ElectionID = JNum 2,
       bt_CandidateID = JNum 1\<rparr>]"
  by code_simp

section \<open>C4: the audit log and the numbered chain\<close>

lemma logged_registerVoter: "logged db (registerVoter db data)"
proof (cases "registerVoter db data" rule: reply_cases)
  case (ok x d)
  from registerVoter_try_Inr [OF registerVoter_Success [OF ok]] obtain a b where
    "audit d = audit db @ [a]" "au_status a = ''success''" "au_error a = None"
    "blockchain d = blockchain db @ [b]" "bl_blockNumber b = length (blockchain db)"
    by auto
  with ok show ?thesis by (simp add: logged_def)
next
  case (err e d)
  with registerVoter_Failure [OF err] show ?thesis by (simp add: logged_def)
qed

lemma logged_createElection: "logged db (createElection cfg db data)"
proof (cases "createElection cfg db data" rule: reply_cases)
  case (ok x d)
  from createElection_try_Inr [OF createElection_Success [OF ok]] obtain a b where
    "audit d = audit db @ [a]" "au_status a = ''success''" "au_error a = None"
    "blockchain d = blockchain db @ [b]" "bl_blockNumber b = length (blockchain db)"
    by auto
  with ok show ?thesis by (simp add: logged_def)
next
  case (err e d)
  with createElection_Failure [OF err] show ?thesis by (simp add: logged_def)
qed

lemma logged_addCandidate: "logged db (addCandidate db data)"
proof (cases "addCandidate db data" rule: reply_cases)
  case (ok x d)
  from addCandidate_try_Inr [OF addCandidate_Success [OF ok]] obtain a b where
    "audit d = audit db @ [a]" "au_status a = ''success''" "au_error a = None"
    "blockchain d = blockchain db @ [b]" "bl_blockNumber b = length (blockchain db)"
    by auto
  with ok show ?thesis by (simp add: logged_def)
next
  case (err e d)
  with addCandidate_Failure [OF err] show ?thesis by (simp add: logged_def)
qed

lemma logged_recordVote: "logged db (recordVote db data)"
proof (cases "recordVote db data" rule: reply_cases)
  case (ok x d)
  from recordVote_try_Inr [OF recordVote_Success [OF ok]] obtain a b where
    "audit d = audit db @ [a]" "au_status a = ''success''" "au_error a = None"
    "blockchain d = blockchain db @ [b]" "bl_blockNumber b = length (blockchain db)"
    by auto
  with ok show ?thesis by (simp add: logged_def)
next
  case (err e d)
  with recordVote_Failure [OF err] show ?thesis by (simp add: logged_def)
qed

lemma chain_numbered_logged:
  assumes "chain_numbered db" and "logged db r"
  shows "chain_numbered (snd r)"
proof (cases "fst r")
  case (Success x)
  with assms(2) have b: "blockchain (snd r) \<noteq> []" "butlast (blockchain (snd r)) = blockchain db"
      "bl_blockNumber (last (blockchain (snd r))) = length (blockchain db)"
    by (simp_all add: logged_def Let_def)
  from b(1) have "blockchain (snd r) = butlast (blockchain (snd r)) @ [last (blockchain (snd r))]"
    by simp
  with b(2,3) obtain blk where blk: "blockchain (snd r) = blockchain db @ [blk]"
      "bl_blockNumber blk = length (blockchain db)"
    by metis
  have "map bl_blockNumber (blockchain (snd r)) =
             map bl_blockNumber (blockchain db) @ [length (blockchain db)] \<and>
             length (blockchain (snd r)) = Suc (length (blockchain db))"
    by (simp add: blk)
  with assms(1) show ?thesis by (simp add: chain_numbered_def)
next
  case (Failure e)
  with assms show ?thesis by (simp add: logged_def Let_def chain_numbered_def)
qed

lemma chain_numbered_step:
  assumes "chain_numbered db"
  shows "chain_numbered (handleAction_state cfg req db)"
proof (rule handleAction_state_cases)
  show "chain_numbered db" by fact
  show "chain_numbered (initializeSystem db)"
    using assms by (simp add: chain_numbered_def initializeSystem_def updateStats_def)
next
  fix data
  show "chain_numbered (snd (registerVoter db data))"
    by (rule chain_numbered_logged [OF assms logged_registerVoter])
  show "chain_numbered (snd (createElection cfg db data))"
    by (rule chain_numbered_logged [OF assms logged_createElection])
  show "chain_numbered (snd (addCandidate db data))"
    by (rule chain_numbered_logged [OF assms logged_addCandidate])
  show "chain_numbered (snd (recordVote db data))"
    by (rule chain_numbered_logged [OF assms logged_recordVote])
qed

lemma chain_numbered_run: "chain_numbered (run cfg reqs DATABASE0)"
proof (rule run_invariant)
  show "chain_numbered DATABASE0"
    by (simp add: chain_numbered_def DATABASE0_def)
qed (rule chain_numbered_step)

text \<open>
  Claim C4, as amended. Every mutating action of \<^verbatim>\<open>server.js\<close> (registration, election
  creation, candidate addition, vote), whether it succeeds or fails, appends exactly one
  entry to the audit log, whose status and error record the outcome; the audit entry
  carries no sequence number, and its position in the log is its only order. The numbered
  log is the chain written by \<^verbatim>\<open>logBlockchain\<close>: an action that succeeds appends one block
  whose \<^verbatim>\<open>blockNumber\<close> is the length the chain had, and an action that fails appends no
  block. So in every state reached from the empty database the block numbers are
  0, 1, 2, ... in order, without gaps, and they depend on no other identifier. Neither log
  call raises to its caller: both are total functions of the state.
\<close>

theorem C4_audit_and_chain:
  "logged db (registerVoter db d1) \<and> logged db (createElection cfg db d2) \<and>
   logged db (addCandidate db d3) \<and> logged db (recordVote db d4) \<and>
   map bl_blockNumber (blockchain (run cfg reqs DATABASE0)) =
     [0..<length (blockchain (run cfg reqs DATABASE0))]"
  using logged_registerVoter logged_createElection logged_addCandidate logged_recordVote
    chain_numbered_run [of cfg reqs]
  by (simp add: chain_numbered_def)

theorem C4_counterexample:
  "fst (registerVoter DATABASE0 [(''name'', JStr ''Ana'')]) = Failure MissingVoterData \<and>
   map au_status (audit (snd (registerVoter DATABASE0 [(''name'', JStr ''Ana'')]))) = [''error''] \<and>
   blockchain (snd (registerVoter DATABASE0 [(''name'', JStr ''Ana'')])) = blockchain DATABASE0"
  by code_simp

section \<open>C5: registration is unique per wallet\<close>

lemma js_trim_Inl: "js_trim v = Inl e \<Longrightarrow> e = TypeError"
  by (cases v) auto

lemma registerVoter_again:
  assumes stored: "list_ex (\<lambda>v. toLowerCase (vo_walletAddress v) = w) (voters db)"
    and wallet: "js_lower_trim (js_or (js_or (field data ''walletAddress'') (field data ''wallet''))
                   (JStr [])) = Inr w"
    and shape: "wallet_shape w"
  shows "registerVoter_try db data =
     Inl (case js_trim (js_or (field data ''name'') (JStr [])) of
            Inl x \<Rightarrow> TypeError
          | Inr n \<Rightarrow>
         (case js_trim (js_or (js_or (field data ''idNumber'') (field data ''dni'')) (JStr [])) of
            Inl x \<Rightarrow> TypeError
          | Inr i \<Rightarrow>
         (case js_trim (js_or (field data ''email'') (JStr [])) of
            Inl x \<Rightarrow> TypeError
          | Inr em \<Rightarrow> if n = [] \<or> i = [] then MissingVoterData else DuplicateVoter)))"
proof -
  from shape have "w \<noteq> []" by (auto simp: wallet_shape_def)
  then show ?thesis
    using stored wallet shape unfolding registerVoter_try_def
    by (auto split: sum.splits dest: js_trim_Inl)
qed

lemma b_api_registerVoter_again:
  assumes stored: "v \<in> set (b_voters db)" "truthy (bv_Wallet v)"
      "toLowerCase (String (bv_Wallet v)) = toLowerCase (String (field body ''walletAddress''))"
    and action: "field body ''action'' = JStr ''registerVoter''"
    and wallet: "truthy (field body ''walletAddress'')"
  shows "b_api now body (lastCall, db) =
     (if fst (antiSpam now (JStr ''registerVoter'') lastCall)
      then (VoterReply (Failure (if truthy (field body ''name'') \<and> truthy (field body ''idNumber'')
                                 then B_WalletRegistered else B_IncompleteFields)),
            (snd (antiSpam now (JStr ''registerVoter'') lastCall), db))
      else (TooManyRequests, (lastCall, db)))"
proof (cases "truthy (field body ''name'') \<and> truthy (field body ''idNumber'')")
  case True
  with b_registerVoter_duplicate [OF stored wallet] have
    "b_registerVoter db body = (Failure B_WalletRegistered, db)" by simp
  with True action show ?thesis by (simp add: b_api_def Let_def)
next
  case False
  then have "b_registerVoter db body = (Failure B_IncompleteFields, db)"
    by (auto simp: b_registerVoter_def Let_def)
  with False action show ?thesis by (auto simp: b_api_def Let_def)
qed

text \<open>
  Claim C5, as amended. After one successful register call, a second register call with
  the same wallet (the same once lower-cased; \<^verbatim>\<open>server.js\<close> also trims it, and reads it
  from \<^verbatim>\<open>walletAddress\<close> or \<^verbatim>\<open>wallet\<close>), made at once or after any further requests, never
  succeeds and leaves the stored voters as they are. In \<^verbatim>\<open>server.js\<close> the reply is the
  failure \<open>DuplicateVoter\<close> when the call carries a name and an id number that are strings
  and not blank (and an email that is a string or absent); it is \<open>MissingVoterData\<close> when
  the name or the id number is missing or blank, and \<open>TypeError\<close> when one of the three is a
  truthy value that is not a string, because those checks come before the lookup. In
  \<^verbatim>\<open>backend.js\<close> a second call that arrives within 800 ms of the last \<^verbatim>\<open>registerVoter\<close>
  request let through is answered 429 Too many requests; otherwise the reply is
  \<open>B_IncompleteFields\<close> when the name or the id number is falsy and \<open>B_WalletRegistered\<close>
  when both are there.
\<close>

theorem C5_registration_unique:
  assumes first: "registerVoter db data1 = (Success w, db1)"
    and later: "db2 = run cfg reqs db1"
    and wallet: "js_lower_trim (js_or (js_or (field data2 ''walletAddress'') (field data2 ''wallet''))
                   (JStr [])) = Inr w"
    and b_first: "b_registerVoter bdb body1 = (Success v, bdb1)"
    and b_later: "bdb2 = b_run breqs bdb1"
    and b_action: "field body2 ''action'' = JStr ''registerVoter''"
    and b_wallet: "truthy (field body2 ''walletAddress'')"
      "toLowerCase (String (field body2 ''walletAddress'')) =
       toLowerCase (String (field body1 ''walletAddress''))"
  shows "fst (registerVoter db2 data2) =
           Failure (case js_trim (js_or (field data2 ''name'') (JStr [])) of
                      Inl x \<Rightarrow> TypeError
                    | Inr n \<Rightarrow>
                   (case js_trim (js_or (js_or (field data2 ''idNumber'') (field data2 ''dni''))
                            (JStr [])) of
                      Inl x \<Rightarrow> TypeError
                    | Inr i \<Rightarrow>
                   (case js_trim (js_or (field data2 ''email'') (JStr [])) of
                      Inl x \<Rightarrow> TypeError
                    | Inr em \<Rightarrow> if n = [] \<or> i = [] then MissingVoterData else DuplicateVoter))) \<and>
         voters (snd (registerVoter db2 data2)) = voters db2 \<and>
         b_api now body2 (lastCall, bdb2) =
           (if fst (antiSpam now (JStr ''registerVoter'') lastCall)
            then (VoterReply (Failure (if truthy (field body2 ''name'') \<and>
                                          truthy (field body2 ''idNumber'')
                                       then B_WalletRegistered else B_IncompleteFields)),
                  (snd (antiSpam now (JStr ''registerVoter'') lastCall), bdb2))
            else (TooManyRequests, (lastCall, bdb2)))"
proof -
  from registerVoter_try_Inr [OF registerVoter_Success [OF first]] obtain x where
    x: "vo_walletAddress x = w" "voters db1 = voters db @ [x]"
    and w: "js_lower_trim (js_or (js_or (field data1 ''walletAddress'') (field data1 ''wallet'')) (JStr [])) = Inr w"
    by auto
  have shape: "wallet_shape w"
    using registerVoter_Success [OF first] unfolding registerVoter_try_def
    by (auto split: sum.splits if_splits)
  from voters_run [of cfg reqs db1] later x obtain more where
    "voters db2 = voters db @ [x] @ more" by auto
  then have "x \<in> set (voters db2)" by simp
  moreover have "toLowerCase (vo_walletAddress x) = w"
    using js_lower_trim_lower [OF w] x(1) by simp
  ultimately have stored: "list_ex (\<lambda>v. toLowerCase (vo_walletAddress v) = w) (voters db2)"
    by (auto simp: list_ex_iff)
  note again = registerVoter_again [OF stored wallet shape]
  have 1: "fst (registerVoter db2 data2) =
           Failure (case js_trim (js_or (field data2 ''name'') (JStr [])) of
                      Inl x \<Rightarrow> TypeError
                    | Inr n \<Rightarrow>
                   (case js_trim (js_or (js_or (field data2 ''idNumber'') (field data2 ''dni''))
                            (JStr [])) of
                      Inl x \<Rightarrow> TypeError
                    | Inr i \<Rightarrow>
                   (case js_trim (js_or (field data2 ''email'') (JStr [])) of
                      Inl x \<Rightarrow> TypeError
                    | Inr em \<Rightarrow> if n = [] \<or> i = [] then MissingVoterData else DuplicateVoter)))"
    by (simp add: registerVoter_def again)
  have 2: "voters (snd (registerVoter db2 data2)) = voters db2"
    by (simp add: registerVoter_def again)
  from b_registerVoter_Success [OF b_first] have
    v: "truthy (field body1 ''walletAddress'')" "bv_Wallet v = field body1 ''walletAddress''"
      "b_voters bdb1 = b_voters bdb @ [v]"
    by auto
  from b_voters_run [of breqs bdb1] b_later v(3) obtain bmore where
    "b_voters bdb2 = b_voters bdb @ [v] @ bmore" by auto
  then have vin: "v \<in> set (b_voters bdb2)" by simp
  have tv: "truthy (bv_Wallet v)"
    using v(1,2) by simp
  have lw: "toLowerCase (String (bv_Wallet v)) = toLowerCase (String (field body2 ''walletAddress''))"
    using v(2) b_wallet(2) by simp
  note 3 = b_api_registerVoter_again [OF vin tv lw b_action b_wallet(1), of now lastCall]
  from 1 2 3 show ?thesis by simp
qed


theorem C5_counterexample:
  "fst (registerVoter DATABASE0
          [(''walletAddress'', JStr ''0xAAAAAAAAAAAAAAAAAAAAAAAAAAAAAAAAAAAAAAA1''),
           (''name'', JStr ''Ana''), (''idNumber'', JStr ''1'')]) =
     Success ''0xaaaaaaaaaaaaaaaaaaaaaaaaaaaaaaaaaaaaaaa1'' \<and>
   fst (registerVoter
          (snd (registerVoter DATABASE0
                  [(''walletAddress'', JStr ''0xAAAAAAAAAAAAAAAAAAAAAAAAAAAAAAAAAAAAAAA1''),
                   (''name'', JStr ''Ana''), (''idNumber'', JStr ''1'')]))
          [(''walletAddress'', JStr ''0xAAAAAAAAAAAAAAAAAAAAAAAAAAAAAAAAAAAAAAA1'')]) =
     Failure MissingVoterData \<and>
   fst (b_api 1000000
          [(''action'', JStr ''registerVoter''), (''walletAddress'', JStr ''0xAbC''),
           (''name'', JStr ''Ana''), (''idNumber'', JNum 7)] ([], DEFAULT_DB)) =
     VoterReply (Success \<lparr>bv_VoterID = 1, bv_Wallet = JStr ''0xAbC'', bv_Name = JStr ''Ana'',
                           bv_IDNumber = JNum 7, bv_Email = JStr [], bv_IP = JStr []\<rparr>) \<and>
   fst (b_api 1000500
          [(''action'', JStr ''registerVoter''), (''walletAddress'', JStr ''0xAbC''),
           (''name'', JStr ''Ana''), (''idNumber'', JNum 7)]
          (snd (b_api 1000000
                  [(''action'', JStr ''registerVoter''), (''walletAddress'', JStr ''0xAbC''),
                   (''name'', JStr ''Ana''), (''idNumber'', JNum 7)] ([], DEFAULT_DB)))) =
     TooManyRequests"
  by code_simp

theorem C5_registration_unique_witness:
  "fst (registerVoter
          (run demo_config [(''getStats'', [])]
             (snd (registerVoter DATABASE0
                [(''walletAddress'', JStr ''0xAAAAAAAAAAAAAAAAAAAAAAAAAAAAAAAAAAAAAAA1''),
                 (''name'', JStr ''Ana''), (''idNumber'', JStr ''1'')])))
          [(''wallet'', JStr '' 0xaaaaaaaaaaaaaaaaaaaaaaaaaaaaaaaaaaaaaaa1''),
           (''name'', JStr ''Ana Maria''), (''dni'', JStr ''2'')]) = Failure DuplicateVoter \<and>
   length (voters (snd (registerVoter
          (run demo_config [(''getStats'', [])]
             (snd (registerVoter DATABASE0
                [(''walletAddress'', JStr ''0xAAAAAAAAAAAAAAAAAAAAAAAAAAAAAAAAAAAAAAA1''),
                 (''name'', JStr ''Ana''), (''idNumber'', JStr ''1'')])))
          [(''wallet'', JStr '' 0xaaaaaaaaaaaaaaaaaaaaaaaaaaaaaaaaaaaaaaa1''),
           (''name'', JStr ''Ana Maria''), (''dni'', JStr ''2'')]))) = 1 \<and>
   fst (b_api 1000800
          [(''action'', JStr ''registerVoter''), (''walletAddress'', JStr ''0xaBc''),
           (''name'', JStr ''Eva''), (''idNumber'', JNum 8)]
          ([(''registerVoter'', 1000000)],
           b_run [] (snd (b_registerVoter DEFAULT_DB
             [(''walletAddress'', JStr ''0xAbC''), (''name'', JStr ''Ana''), (''idNumber'', JNum 7)])))) =
     VoterReply (Failure B_WalletRegistered)"
proof -
  let ?d1 = "[(''walletAddress'', JStr ''0xAAAAAAAAAAAAAAAAAAAAAAAAAAAAAAAAAAAAAAA1''),
              (''name'', JStr ''Ana''), (''idNumber'', JStr ''1'')]"
  let ?d2 = "[(''wallet'', JStr '' 0xaaaaaaaaaaaaaaaaaaaaaaaaaaaaaaaaaaaaaaa1''),
              (''name'', JStr ''Ana Maria''), (''dni'', JStr ''2'')]"
  let ?b1 = "[(''walletAddress'', JStr ''0xAbC''), (''name'', JStr ''Ana''), (''idNumber'', JNum 7)]"
  let ?b2 = "[(''action'', JStr ''registerVoter''), (''walletAddress'', JStr ''0xaBc''),
              (''name'', JStr ''Eva''), (''idNumber'', JNum 8)]"
  let ?w = "''0xaaaaaaaaaaaaaaaaaaaaaaaaaaaaaaaaaaaaaaa1''"
  have "fst (registerVoter DATABASE0 ?d1) = Success ?w"
    by code_simp
  then have h1: "registerVoter DATABASE0 ?d1 = (Success ?w, snd (registerVoter DATABASE0 ?d1))"
    by (simp add: prod_eq_iff)
  have h2: "js_lower_trim (js_or (js_or (field ?d2 ''walletAddress'') (field ?d2 ''wallet''))
              (JStr [])) = Inr ?w"
    by code_simp
  have "\<exists>v. fst (b_registerVoter DEFAULT_DB ?b1) = Success v"
    by (simp add: b_registerVoter_def field_def DEFAULT_DB_def Let_def)
  then obtain v where "fst (b_registerVoter DEFAULT_DB ?b1) = Success v" ..
  then have h3: "b_registerVoter DEFAULT_DB ?b1 = (Success v, snd (b_registerVoter DEFAULT_DB ?b1))"
    by (simp add: prod_eq_iff)
  have h4: "field ?b2 ''action'' = JStr ''registerVoter''"
    by code_simp
  have h5: "truthy (field ?b2 ''walletAddress'')"
    "toLowerCase (String (field ?b2 ''walletAddress'')) =
     toLowerCase (String (field ?b1 ''walletAddress''))"
    by code_simp+
  note r = C5_registration_unique [OF h1 refl h2 h3 refl h4 h5,
      where cfg = demo_config and reqs = "[(''getStats'', [])]" and breqs = "[]" and
        now = 1000800 and lastCall = "[(''registerVoter'', 1000000)]"]
  have e1: "(case js_trim (js_or (field ?d2 ''name'') (JStr [])) of
               Inl x \<Rightarrow> TypeError
             | Inr n \<Rightarrow>
            (case js_trim (js_or (js_or (field ?d2 ''idNumber'') (field ?d2 ''dni'')) (JStr [])) of
               Inl x \<Rightarrow> TypeError
             | Inr i \<Rightarrow>
            (case js_trim (js_or (field ?d2 ''email'') (JStr [])) of
               Inl x \<Rightarrow> TypeError
             | Inr em \<Rightarrow> if n = [] \<or> i = [] then MissingVoterData else DuplicateVoter))) =
            DuplicateVoter"
    by code_simp
  have e2: "fst (antiSpam 1000800 (JStr ''registerVoter'') [(''registerVoter'', 1000000)])"
    by code_simp
  have e3: "truthy (field ?b2 ''name'') \<and> truthy (field ?b2 ''idNumber'')"
    by code_simp
  have n: "length (voters (run demo_config [(''getStats'', [])] (snd (registerVoter DATABASE0 ?d1)))) = 1"
    by code_simp
  from r have 1: "fst (registerVoter (run demo_config [(''getStats'', [])]
                    (snd (registerVoter DATABASE0 ?d1))) ?d2) = Failure DuplicateVoter"
    unfolding e1 by blast
  from r n have 2: "length (voters (snd (registerVoter (run demo_config [(''getStats'', [])]
                    (snd (registerVoter DATABASE0 ?d1))) ?d2))) = 1"
    by simp
  from r have "b_api 1000800 ?b2 ([(''registerVoter'', 1000000)],
                   b_run [] (snd (b_registerVoter DEFAULT_DB ?b1))) =
      (if fst (antiSpam 1000800 (JStr ''registerVoter'') [(''registerVoter'', 1000000)])
            then (VoterReply (Failure (if truthy (field ?b2 ''name'') \<and>
                                          truthy (field ?b2 ''idNumber'')
                                       then B_WalletRegistered else B_IncompleteFields)),
                  (snd (antiSpam 1000800 (JStr ''registerVoter'') [(''registerVoter'', 1000000)]),
                   b_run [] (snd (b_registerVoter DEFAULT_DB ?b1))))
            else (TooManyRequests, ([(''registerVoter'', 1000000)],
                   b_run [] (snd (b_registerVoter DEFAULT_DB ?b1)))))"
    by blast
  with e2 e3 have 3: "fst (b_api 1000800 ?b2 ([(''registerVoter'', 1000000)],
                   b_run [] (snd (b_registerVoter DEFAULT_DB ?b1)))) =
      VoterReply (Failure B_WalletRegistered)"
    by simp
  from 1 2 3 show ?thesis by blast
qed

section \<open>C6: how candidates are numbered\<close>

lemma fold_max_ge: "k \<le> fold max xs (k :: int)"
  by (induction xs arbitrary: k) (auto intro: order_trans [OF max.cobounded2])

lemma fold_max_upper: "x \<in> set xs \<Longrightarrow> x \<le> fold max xs (k :: int)"
proof (induction xs arbitrary: k)
  case Nil
  then show ?case by simp
next
  case (Cons y ys)
  show ?case
  proof (cases "x = y")
    case True
    have "y \<le> max y k" by simp
    also have "\<dots> \<le> fold max ys (max y k)" by (rule fold_max_ge)
    finally show ?thesis using True by simp
  next
    case False
    with Cons show ?thesis by simp
  qed
qed

lemma nextId_fresh: "x \<in> set keys \<Longrightarrow> x < nextId keys"
proof (cases keys)
  case Nil
  then show "x \<in> set keys \<Longrightarrow> x < nextId keys" by simp
next
  case (Cons k rest)
  assume "x \<in> set keys"
  with Cons have "x = k \<or> x \<in> set rest" by simp
  then have "x \<le> fold max rest k"
    using fold_max_ge [of k rest] fold_max_upper [of x rest k] by auto
  with Cons show "x < nextId keys" by (simp add: nextId_def)
qed

lemma addCandidate_number:
  assumes "addCandidate db data = (Success i, db')"
  shows "\<exists>e c. parseInt (js_or (field data ''electionId'') (field data ''election'')) = Some e \<and>
           i = int (length (candidates_of db e)) + 1 \<and>
           candidates db' = candidates db @ [c] \<and> ca_electionId c = e \<and> ca_candidateId c = i"
  using addCandidate_try_Inr [OF addCandidate_Success [OF assms]]
  by (auto simp: candidates_of_def)

lemma dense_candidates_run:
  "map ca_candidateId (candidates_of (run cfg reqs DATABASE0) e) =
     map int [1..<Suc (length (candidates_of (run cfg reqs DATABASE0) e))]"
  using ledger_inv_reachable [of cfg reqs]
  by (simp add: ledger_inv_def dense_candidates_def del: upt_Suc)

lemma b_addCandidate_number:
  assumes "b_addCandidate bdb body = (Success c, bdb')"
  shows "bc_CandidateID c = nextId (map bc_CandidateID (b_candidates bdb)) \<and>
         b_candidates bdb' = b_candidates bdb @ [c] \<and>
         list_all (\<lambda>x. bc_CandidateID x < bc_CandidateID c) (b_candidates bdb)"
proof -
  from assms have c: "bc_CandidateID c = nextId (map bc_CandidateID (b_candidates bdb))"
      "b_candidates bdb' = b_candidates bdb @ [c]"
    by (auto simp: b_addCandidate_def Let_def split: if_splits)
  have "list_all (\<lambda>x. bc_CandidateID x < bc_CandidateID c) (b_candidates bdb)"
    unfolding list_all_iff c(1)
    by (auto intro!: nextId_fresh)
  with c show ?thesis by simp
qed

text \<open>
  Claim C6, as amended. In \<^verbatim>\<open>server.js\<close> a successful \<^verbatim>\<open>addCandidate\<close> gives the new
  candidate the number of candidates its election has so far, plus one, and appends it; so
  in every state reached from the empty database the candidate ids of each election, in
  the order the candidates were added, are 1, 2, ..., n: dense and unique within the
  election, repeated across elections, and independent of the size of the whole roster.
  \<^verbatim>\<open>backend.js\<close> numbers differently: its \<^verbatim>\<open>addCandidate\<close> takes \<^verbatim>\<open>nextId\<close> of the whole
  roster, one more than the largest \<^verbatim>\<open>CandidateID\<close> of any election (1 for an empty roster),
  so its ids are unique across all elections and are not dense within one.
\<close>

theorem C6_candidate_numbering:
  assumes "addCandidate db data = (Success i, db')"
    and "b_addCandidate bdb body = (Success bc, bdb')"
  shows "(\<exists>e c. parseInt (js_or (field data ''electionId'') (field data ''election'')) = Some e \<and>
            i = int (length (candidates_of db e)) + 1 \<and>
            candidates db' = candidates db @ [c] \<and> ca_electionId c = e \<and> ca_candidateId c = i) \<and>
         map ca_candidateId (candidates_of (run cfg reqs DATABASE0) e') =
           map int [1..<Suc (length (candidates_of (run cfg reqs DATABASE0) e'))] \<and>
         bc_CandidateID bc = nextId (map bc_CandidateID (b_candidates bdb)) \<and>
         b_candidates bdb' = b_candidates bdb @ [bc] \<and>
         list_all (\<lambda>x. bc_CandidateID x < bc_CandidateID bc) (b_candidates bdb)"
  using addCandidate_number [OF assms(1)] dense_candidates_run [of cfg reqs e']
    b_addCandidate_number [OF assms(2)]
  by blast

theorem C6_counterexample:
  "length (filter (\<lambda>c. bc_ElectionID c = JNum 2) (b_candidates b_two_elections)) = 0 \<and>
   map bc_CandidateID (filter (\<lambda>c. bc_ElectionID c = JNum 2)
     (b_candidates (snd (b_addCandidate b_two_elections
        [(''electionId'', JNum 2), (''name'', JStr ''Bob'')])))) = [2]"
  by code_simp

theorem C6_candidate_numbering_witness:
  "map ca_candidateId (candidates_of demo_ballot 1) = [1, 2] \<and>
   fst (addCandidate demo_ballot [(''electionId'', JNum 1), (''name'', JStr ''Carol'')]) = Success 3 \<and>
   fst (addCandidate
         (snd (createElection demo_config demo_ballot
                 [(''adminAddress'', JStr ''0xadmin''), (''title'', JStr ''E2'')]))
         [(''electionId'', JNum 2), (''name'', JStr ''Dan'')]) = Success 1"
proof -
  let ?d = "[(''electionId'', JNum 1), (''name'', JStr ''Carol'')]"
  let ?b = "[(''electionId'', JNum 2), (''name'', JStr ''Bob'')]"
  have "fst (addCandidate demo_ballot ?d) = Success 3"
    by code_simp
  then have h1: "addCandidate demo_ballot ?d = (Success 3, snd (addCandidate demo_ballot ?d))"
    by (simp add: prod_eq_iff)
  have "\<exists>c. fst (b_addCandidate b_two_elections ?b) = Success c"
    by (simp add: b_addCandidate_def field_def Let_def)
  then obtain c where "fst (b_addCandidate b_two_elections ?b) = Success c" ..
  then have h2: "b_addCandidate b_two_elections ?b = (Success c, snd (b_addCandidate b_two_elections ?b))"
    by (simp add: prod_eq_iff)
  have len: "length (candidates_of demo_ballot 1) = 2"
    by code_simp
  from C6_candidate_numbering [OF h1 h2, of demo_config
      "[(''createElection'', [(''adminAddress'', JStr ''0xADMIN''), (''title'', JStr ''E1'')]),
        (''addCandidate'', [(''electionId'', JNum 1), (''name'', JStr ''Alice'')]),
        (''addCandidate'', [(''electionId'', JNum 1), (''name'', JStr ''Bob'')])]" 1]
  have "map ca_candidateId (candidates_of demo_ballot 1) =
          map int [1..<Suc (length (candidates_of demo_ballot 1))]"
    by (simp add: demo_ballot_def del: upt_Suc)
  then have 1: "map ca_candidateId (candidates_of demo_ballot 1) = [1, 2]"
    by (simp add: len upt_rec)
  have 2: "fst (addCandidate
         (snd (createElection demo_config demo_ballot
                 [(''adminAddress'', JStr ''0xadmin''), (''title'', JStr ''E2'')]))
         [(''electionId'', JNum 2), (''name'', JStr ''Dan'')]) = Success 1"
    by code_simp
  from 1 2 \<open>fst (addCandidate demo_ballot ?d) = Success 3\<close> show ?thesis by simp
qed

section \<open>C7: which elections are listed as active\<close>








section \<open>C8: the recomputation is idempotent and reads the ledger only\<close>

text \<open>
  Claim C8. Running the tally recomputation of \<^verbatim>\<open>server.js\<close> (\<^verbatim>\<open>updateCandidateVotes\<close> then
  \<^verbatim>\<open>updateElectionTotalVotes\<close>) twice with no vote in between gives the very database that
  running it once gives. Its output for the election is a function of the vote ledger alone:
  started from any other cached values (\<open>with_caches\<close>, a cold rebuild), it writes the same
  candidates of the election and the same election record; every candidate gets the fields
  \<open>tallied\<close> computes from the votes.
\<close>

theorem C8_recompute_idempotent:
  "recompute e (recompute e db) = recompute e db \<and>
   candidates_of (recompute e (with_caches f g h db)) e = candidates_of (recompute e db) e \<and>
   find (\<lambda>x. el_electionId x = e) (elections (recompute e (with_caches f g h db))) =
     find (\<lambda>x. el_electionId x = e) (elections (recompute e db)) \<and>
   candidates (recompute e db) = map (tallied (votes db) e) (candidates db)"
  using recompute_idem recompute_cold_candidates recompute_cold_election candidates_recompute
  by simp

section \<open>C9: casting a vote never consults the voter registry\<close>

lemma recordVote_accepts:
  assumes wallet: "js_or (js_or (js_or (field data ''walletAddress'') (field data ''voter''))
                     (field data ''from'')) (JStr []) = JStr s" "trim (toLowerCase s) \<noteq> []"
    and election: "parseInt (field data ''electionId'') = Some e" "e \<noteq> 0"
    and candidate: "parseInt (field data ''candidateId'') = Some c" "c \<noteq> 0"
    and listed: "list_ex (\<lambda>x. ca_electionId x = e \<and> ca_candidateId x = c) (candidates db)"
    and fresh: "\<not> list_ex (\<lambda>v. toLowerCase (vt_walletAddress v) = trim (toLowerCase s) \<and>
                              vt_electionId v = e) (votes db)"
  shows "\<exists>t db' v. recordVote db data = (Success t, db') \<and> votes db' = votes db @ [v] \<and>
           vt_walletAddress v = trim (toLowerCase s) \<and> vt_electionId v = e \<and> vt_candidateId v = c"
proof -
  from listed have found:
    "find (\<lambda>x. ca_electionId x = e \<and> ca_candidateId x = c) (candidates db) \<noteq> None"
    by (auto simp: find_None_iff list_ex_iff)
  have "\<exists>t db' v. recordVote_try db data = Inr (t, db') \<and> votes db' = votes db @ [v] \<and>
           vt_walletAddress v = trim (toLowerCase s) \<and> vt_electionId v = e \<and> vt_candidateId v = c"
    using wallet election candidate found fresh unfolding recordVote_try_def
    by (simp add: Let_def not_num_def)
  then show ?thesis
    by (auto simp: recordVote_def)
qed

lemma recordVote_blank_wallet:
  assumes wallet: "js_or (js_or (js_or (field data ''walletAddress'') (field data ''voter''))
                     (field data ''from'')) (JStr []) = JStr s" "trim (toLowerCase s) = []"
  shows "fst (recordVote db data) = Failure MissingVoteData \<and>
         votes (snd (recordVote db data)) = votes db"
proof -
  have "recordVote_try db data = Inl MissingVoteData"
    using wallet unfolding recordVote_try_def by (simp add: Let_def)
  then show ?thesis by (simp add: recordVote_def)
qed

lemma b_castVote_accepts:
  assumes fields: "truthy (field body ''walletAddress'')" "truthy (field body ''electionId'')"
      "truthy (field body ''candidateId'')"
    and fresh: "\<not> list_ex (\<lambda>v. toLowerCase (String (js_or (bt_Wallet v) (JStr []))) =
                                toLowerCase (String (field body ''walletAddress'')) \<and>
                              String (bt_ElectionID v) = String (field body ''electionId''))
                      (b_votes db)"
  shows "\<exists>v db'. b_castVote db body = (Success v, db') \<and> b_votes db' = b_votes db @ [v] \<and>
           bt_Wallet v = field body ''walletAddress''"
  using assms by (simp add: b_castVote_def Let_def)

lemma b_api_castVote:
  assumes action: "field body ''action'' = JStr ''castVote''"
  shows "b_api now body (lastCall, db) =
     (if fst (antiSpam now (JStr ''castVote'') lastCall)
      then (VoteReply (fst (b_castVote db body)),
            (snd (antiSpam now (JStr ''castVote'') lastCall), snd (b_castVote db body)))
      else (TooManyRequests, (lastCall, db)))"
  using action by (simp add: b_api_def Let_def)

text \<open>
  Claim C9, as amended. \<^verbatim>\<open>recordVote\<close> of \<^verbatim>\<open>server.js\<close> never consults the voter registry:
  for a wallet string that is not empty once lower-cased and trimmed, with the election and
  the candidate given, the candidate a candidate of that election and no earlier vote of
  the wallet in it, it replies success and appends the vote, whatever the registry
  (\<open>registry\<close>) holds, the empty registry included; a non-empty wallet string of blanks only
  is refused as \<open>MissingVoteData\<close> and nothing is appended. The error type has no error for
  an unregistered voter. The \<^verbatim>\<open>castVote\<close> branch of \<^verbatim>\<open>backend.js\<close> never reads the voters
  either: a request with three truthy fields and no earlier vote of the wallet in the
  election is accepted when \<^verbatim>\<open>antiSpam\<close> lets it through, and is answered 429 Too many
  requests, with nothing appended, when it arrives within 800 ms of the last \<^verbatim>\<open>castVote\<close>
  request let through.
\<close>

theorem C9_cast_ignores_registry:
  assumes wallet: "js_or (js_or (js_or (field data ''walletAddress'') (field data ''voter''))
                     (field data ''from'')) (JStr []) = JStr s" "s \<noteq> []"
    and election: "parseInt (field data ''electionId'') = Some e" "e \<noteq> 0"
    and candidate: "parseInt (field data ''candidateId'') = Some c" "c \<noteq> 0"
    and listed: "list_ex (\<lambda>x. ca_electionId x = e \<and> ca_candidateId x = c) (candidates db)"
    and fresh: "\<not> list_ex (\<lambda>v. toLowerCase (vt_walletAddress v) = trim (toLowerCase s) \<and>
                              vt_electionId v = e) (votes db)"
    and b_action: "field body ''action'' = JStr ''castVote''"
    and b_fields: "truthy (field body ''walletAddress'')" "truthy (field body ''electionId'')"
      "truthy (field body ''candidateId'')"
    and b_fresh: "\<not> list_ex (\<lambda>v. toLowerCase (String (js_or (bt_Wallet v) (JStr []))) =
                                toLowerCase (String (field body ''walletAddress'')) \<and>
                              String (bt_ElectionID v) = String (field body ''electionId''))
                      (b_votes bdb)"
  shows "(if trim (toLowerCase s) = []
          then fst (recordVote (db\<lparr>voters := registry\<rparr>) data) = Failure MissingVoteData \<and>
               votes (snd (recordVote (db\<lparr>voters := registry\<rparr>) data)) = votes db
          else (\<exists>t db' v. recordVote (db\<lparr>voters := registry\<rparr>) data = (Success t, db') \<and>
                  votes db' = votes db @ [v] \<and> vt_walletAddress v = trim (toLowerCase s) \<and>
                  vt_electionId v = e \<and> vt_candidateId v = c)) \<and>
         (if fst (antiSpam now (JStr ''castVote'') lastCall)
          then (\<exists>v bdb'. b_api now body (lastCall, bdb\<lparr>b_voters := b_registry\<rparr>) =
                    (VoteReply (Success v), (snd (antiSpam now (JStr ''castVote'') lastCall), bdb')) \<and>
                  b_votes bdb' = b_votes bdb @ [v] \<and> bt_Wallet v = field body ''walletAddress'')
          else b_api now body (lastCall, bdb\<lparr>b_voters := b_registry\<rparr>) =
                 (TooManyRequests, (lastCall, bdb\<lparr>b_voters := b_registry\<rparr>)))"
proof
  show "if trim (toLowerCase s) = []
          then fst (recordVote (db\<lparr>voters := registry\<rparr>) data) = Failure MissingVoteData \<and>
               votes (snd (recordVote (db\<lparr>voters := registry\<rparr>) data)) = votes db
          else (\<exists>t db' v. recordVote (db\<lparr>voters := registry\<rparr>) data = (Success t, db') \<and>
                  votes db' = votes db @ [v] \<and> vt_walletAddress v = trim (toLowerCase s) \<and>
                  vt_electionId v = e \<and> vt_candidateId v = c)"
  proof (cases "trim (toLowerCase s) = []")
    case True
    with recordVote_blank_wallet [OF wallet(1) True, of "db\<lparr>voters := registry\<rparr>"]
    show ?thesis by simp
  next
    case False
    with recordVote_accepts [of data s e c "db\<lparr>voters := registry\<rparr>"]
      wallet(1) election candidate listed fresh
    show ?thesis by simp
  qed
  from b_castVote_accepts [of body "bdb\<lparr>b_voters := b_registry\<rparr>"] b_fields b_fresh
  obtain v bdb' where v: "b_castVote (bdb\<lparr>b_voters := b_registry\<rparr>) body = (Success v, bdb')"
      "b_votes bdb' = b_votes bdb @ [v]" "bt_Wallet v = field body ''walletAddress''"
    by auto
  show "if fst (antiSpam now (JStr ''castVote'') lastCall)
          then (\<exists>v bdb'. b_api now body (lastCall, bdb\<lparr>b_voters := b_registry\<rparr>) =
                    (VoteReply (Success v), (snd (antiSpam now (JStr ''castVote'') lastCall), bdb')) \<and>
                  b_votes bdb' = b_votes bdb @ [v] \<and> bt_Wallet v = field body ''walletAddress'')
          else b_api now body (lastCall, bdb\<lparr>b_voters := b_registry\<rparr>) =
                 (TooManyRequests, (lastCall, bdb\<lparr>b_voters := b_registry\<rparr>))"
    using v by (simp add: b_api_castVote [OF b_action])
qed

theorem C9_counterexample:
  "js_or (js_or (js_or (field [(''walletAddress'', JStr '' ''), (''electionId'', JNum 1),
                               (''candidateId'', JNum 2)] ''walletAddress'')
                       (field [(''walletAddress'', JStr '' ''), (''electionId'', JNum 1),
                               (''candidateId'', JNum 2)] ''voter''))
                (field [(''walletAddress'', JStr '' ''), (''electionId'', JNum 1),
                        (''candidateId'', JNum 2)] ''from'')) (JStr []) = JStr '' '' \<and>
   list_ex (\<lambda>x. ca_electionId x = 1 \<and> ca_candidateId x = 2) (candidates demo_ballot) \<and>
   votes demo_ballot = [] \<and>
   fst (recordVote demo_ballot
          [(''walletAddress'', JStr '' ''), (''electionId'', JNum 1), (''candidateId'', JNum 2)]) =
     Failure MissingVoteData \<and>
   votes (snd (recordVote demo_ballot
          [(''walletAddress'', JStr '' ''), (''electionId'', JNum 1), (''candidateId'', JNum 2)])) = [] \<and>
   fst (b_api 1000300
          [(''action'', JStr ''castVote''), (''walletAddress'', JStr ''0xB''),
           (''electionId'', JNum 1), (''candidateId'', JNum 1)]
          (snd (b_api 1000000
                  [(''action'', JStr ''castVote''), (''walletAddress'', JStr ''0xA''),
                   (''electionId'', JNum 1), (''candidateId'', JNum 1)]
                  ([], b_two_elections)))) = TooManyRequests"
  by code_simp

theorem C9_cast_ignores_registry_witness:
  "voters demo_ballot = [] \<and>
   (\<exists>t db' v. recordVote (demo_ballot\<lparr>voters := []\<rparr>)
        [(''voter'', JStr ''0xBEEF''), (''electionId'', JStr ''1''),
         (''candidateId'', JNum 2)] = (Success t, db') \<and>
      votes db' = votes demo_ballot @ [v] \<and> vt_walletAddress v = ''0xbeef'' \<and>
      vt_electionId v = 1 \<and> vt_candidateId v = 2) \<and>
   (\<exists>v bdb'. b_api 1000800
        [(''action'', JStr ''castVote''), (''walletAddress'', JStr ''0xBEEF''),
         (''electionId'', JNum 1), (''candidateId'', JNum 1)]
        ([(''castVote'', 1000000)], b_two_elections\<lparr>b_voters := []\<rparr>) =
          (VoteReply (Success v), ([(''castVote'', 1000800), (''castVote'', 1000000)], bdb')) \<and>
      b_votes bdb' = b_votes b_two_elections @ [v] \<and> bt_Wallet v = JStr ''0xBEEF'')"
proof -
  let ?data = "[(''voter'', JStr ''0xBEEF''), (''electionId'', JStr ''1''),
                (''candidateId'', JNum 2)]"
  let ?body = "[(''action'', JStr ''castVote''), (''walletAddress'', JStr ''0xBEEF''),
                (''electionId'', JNum 1), (''candidateId'', JNum 1)]"
  have h1: "js_or (js_or (js_or (field ?data ''walletAddress'') (field ?data ''voter''))
              (field ?data ''from'')) (JStr []) = JStr ''0xBEEF''" "''0xBEEF'' \<noteq> []"
    by code_simp+
  have h2: "parseInt (field ?data ''electionId'') = Some 1" "(1::int) \<noteq> 0"
    by code_simp+
  have h3: "parseInt (field ?data ''candidateId'') = Some 2" "(2::int) \<noteq> 0"
    by code_simp+
  have h4: "list_ex (\<lambda>x. ca_electionId x = 1 \<and> ca_candidateId x = 2) (candidates demo_ballot)"
    by code_simp
  have h5: "\<not> list_ex (\<lambda>v. toLowerCase (vt_walletAddress v) = trim (toLowerCase ''0xBEEF'') \<and>
                          vt_electionId v = 1) (votes demo_ballot)"
    by code_simp
  have h6: "field ?body ''action'' = JStr ''castVote''"
    by code_simp
  have h7: "truthy (field ?body ''walletAddress'')" "truthy (field ?body ''electionId'')"
      "truthy (field ?body ''candidateId'')"
    by code_simp+
  have h8: "\<not> list_ex (\<lambda>v. toLowerCase (String (js_or (bt_Wallet v) (JStr []))) =
                            toLowerCase (String (field ?body ''walletAddress'')) \<and>
                          String (bt_ElectionID v) = String (field ?body ''electionId''))
                  (b_votes b_two_elections)"
    by code_simp
  have h0: "voters demo_ballot = []"
    by code_simp
  have e1: "trim (toLowerCase ''0xBEEF'') = ''0xbeef''"
    by code_simp
  have e2: "antiSpam 1000800 (JStr ''castVote'') [(''castVote'', 1000000)] =
            (True, [(''castVote'', 1000800), (''castVote'', 1000000)])"
    by code_simp
  have e3: "field ?body ''walletAddress'' = JStr ''0xBEEF''"
    by code_simp
  note r = C9_cast_ignores_registry [OF h1 h2 h3 h4 h5 h6 h7 h8,
      where registry = "[]" and b_registry = "[]" and now = 1000800 and
        lastCall = "[(''castVote'', 1000000)]"]
  from r h0 show ?thesis
    unfolding e1 e2 e3 by simp
qed


section \<open>C10: createElection is gated on the administrator list\<close>

lemma createElection_elections_Failure:
  "fst (createElection cfg db data) = Failure e \<Longrightarrow>
     elections (snd (createElection cfg db data)) = elections db"
  by (auto simp: createElection_def split: sum.splits)

lemma createElection_admin:
  assumes "createElection cfg db data = (Success i, db')"
  shows "\<exists>a. field data ''adminAddress'' = JStr a \<and> trim (toLowerCase a) \<noteq> [] \<and>
           List.member (ADMIN_ADDRESSES cfg) (trim (toLowerCase a))"
proof -
  from createElection_try_Inr [OF createElection_Success [OF assms]] obtain admin where
    admin: "js_lower_trim (js_or (field data ''adminAddress'') (JStr [])) = Inr admin"
      "admin \<noteq> []" "List.member (ADMIN_ADDRESSES cfg) admin"
    by auto
  show ?thesis
  proof (cases "truthy (field data ''adminAddress'')")
    case True
    with admin show ?thesis
      by (cases "field data ''adminAddress''") (auto simp: js_or_def)
  next
    case False
    with admin show ?thesis by (simp add: js_or_def)
  qed
qed

lemma createElection_blank_admin:
  assumes title: "field data ''title'' = JStr t"
    and descr: "string_or_absent (field data ''description'')"
    and admin: "\<not> truthy (field data ''adminAddress'') \<or>
                (\<exists>a. field data ''adminAddress'' = JStr a \<and> trim (toLowerCase a) = [])"
  shows "fst (createElection cfg db data) = Failure MissingAdminOrTitle"
proof -
  from string_or_absent_trim [OF descr] obtain d where
    d: "js_trim (js_or (field data ''description'') (JStr [])) = Inr d" ..
  from admin have a: "js_lower_trim (js_or (field data ''adminAddress'') (JStr [])) = Inr []"
    by (auto simp: js_or_def)
  have "\<exists>s. js_trim (js_or (field data ''title'') (JStr [])) = Inr s"
    using title by (simp add: js_or_def)
  then obtain s where s: "js_trim (js_or (field data ''title'') (JStr [])) = Inr s" ..
  have "createElection_try cfg db data = Inl MissingAdminOrTitle"
    using a s d by (simp add: createElection_try_def)
  then show ?thesis by (simp add: createElection_def)
qed

lemma createElection_not_admin:
  assumes title: "field data ''title'' = JStr t" "trim t \<noteq> []"
    and descr: "string_or_absent (field data ''description'')"
    and admin: "field data ''adminAddress'' = JStr a" "trim (toLowerCase a) \<noteq> []"
      "\<not> List.member (ADMIN_ADDRESSES cfg) (trim (toLowerCase a))"
  shows "fst (createElection cfg db data) = Failure Unauthorized"
proof -
  from string_or_absent_trim [OF descr] obtain d where
    d: "js_trim (js_or (field data ''description'') (JStr [])) = Inr d" ..
  from admin title have ne: "a \<noteq> []" "t \<noteq> []" by auto
  have "createElection_try cfg db data = Inl Unauthorized"
    using admin title ne d by (simp add: createElection_try_def)
  then show ?thesis by (simp add: createElection_def)
qed

text \<open>
  Claim C10, as amended. \<^verbatim>\<open>createElection\<close> of \<^verbatim>\<open>server.js\<close> succeeds only when the request's
  \<^verbatim>\<open>adminAddress\<close> is a string that, lower-cased and trimmed, is not empty and is one of the
  configured \<^verbatim>\<open>ADMIN_ADDRESSES\<close>. With a title (and a description that is a string or
  absent): when \<^verbatim>\<open>adminAddress\<close> is a non-blank string that is not in the list, the reply is
  the failure \<open>Unauthorized\<close> (No autorizado: direccion no es admin); when \<^verbatim>\<open>adminAddress\<close>
  is absent or blank, the reply is the failure \<open>MissingAdminOrTitle\<close> (Direccion de admin y
  titulo son obligatorios), the same failure a missing title gets. No failure appends an
  election.
\<close>

theorem C10_createElection_admin_gate:
  assumes title: "field data ''title'' = JStr t" "trim t \<noteq> []"
    and descr: "string_or_absent (field data ''description'')"
  shows "(\<forall>i db'. createElection cfg db data = (Success i, db') \<longrightarrow>
            (\<exists>a. field data ''adminAddress'' = JStr a \<and> trim (toLowerCase a) \<noteq> [] \<and>
                 List.member (ADMIN_ADDRESSES cfg) (trim (toLowerCase a)))) \<and>
         (\<forall>a. field data ''adminAddress'' = JStr a \<and> trim (toLowerCase a) \<noteq> [] \<and>
              \<not> List.member (ADMIN_ADDRESSES cfg) (trim (toLowerCase a)) \<longrightarrow>
              fst (createElection cfg db data) = Failure Unauthorized) \<and>
         (\<not> truthy (field data ''adminAddress'') \<or>
            (\<exists>a. field data ''adminAddress'' = JStr a \<and> trim (toLowerCase a) = []) \<longrightarrow>
              fst (createElection cfg db data) = Failure MissingAdminOrTitle) \<and>
         (\<forall>e. fst (createElection cfg db data) = Failure e \<longrightarrow>
              elections (snd (createElection cfg db data)) = elections db)"
  using createElection_admin [of cfg db data] createElection_not_admin [OF title descr]
    createElection_blank_admin [OF title(1) descr] createElection_elections_Failure [of cfg db data]
  by blast

theorem C10_counterexample:
  "fst (createElection demo_config DATABASE0 [(''title'', JStr ''E1'')]) = Failure MissingAdminOrTitle \<and>
   fst (createElection demo_config DATABASE0 [(''title'', JStr ''E1'')]) \<noteq> Failure Unauthorized \<and>
   elections (snd (createElection demo_config DATABASE0 [(''title'', JStr ''E1'')])) = []"
  by code_simp

theorem C10_createElection_admin_gate_witness:
  "fst (createElection demo_config DATABASE0
          [(''adminAddress'', JStr ''0xBAD''), (''title'', JStr ''E1'')]) = Failure Unauthorized \<and>
   elections (snd (createElection demo_config DATABASE0
          [(''adminAddress'', JStr ''0xBAD''), (''title'', JStr ''E1'')])) = elections DATABASE0 \<and>
   fst (createElection demo_config DATABASE0
          [(''adminAddress'', JStr '' 0xADMIN''), (''title'', JStr ''E1'')]) = Success 1"
proof -
  let ?bad = "[(''adminAddress'', JStr ''0xBAD''), (''title'', JStr ''E1'')]"
  have h1: "field ?bad ''title'' = JStr ''E1''" "trim ''E1'' \<noteq> []"
    by code_simp+
  have h2: "string_or_absent (field ?bad ''description'')"
    by code_simp
  have h3: "field ?bad ''adminAddress'' = JStr ''0xBAD'' \<and> trim (toLowerCase ''0xBAD'') \<noteq> [] \<and>
            \<not> List.member (ADMIN_ADDRESSES demo_config) (trim (toLowerCase ''0xBAD''))"
    by code_simp
  from C10_createElection_admin_gate [OF h1 h2, of demo_config DATABASE0] h3
  have "fst (createElection demo_config DATABASE0 ?bad) = Failure Unauthorized \<and>
        elections (snd (createElection demo_config DATABASE0 ?bad)) = elections DATABASE0"
    by blast
  moreover have "fst (createElection demo_config DATABASE0
          [(''adminAddress'', JStr '' 0xADMIN''), (''title'', JStr ''E1'')]) = Success 1"
    by code_simp
  ultimately show ?thesis by simp
qed

end
